theory Spec2Isabelle
  imports Complex_Main "HOL-Library.Word" "HOL-Library.Multiset"
begin

section \<open>JavaScript strings\<close>

text \<open>
  A JavaScript string is a sequence of UTF-16 code units, and \<^verbatim>\<open>length\<close> counts code
  units. Literals of the source that are plain ASCII are written with \<open>js\<close>.
\<close>

type_synonym jsstring = "16 word list"

definition js :: "string \<Rightarrow> jsstring" where
  "js s = map of_char s"

text \<open>
  \<^verbatim>\<open>String.prototype.trim\<close> removes white space and line terminators from both ends:
  TAB, LF, VT, FF, CR, SP, NBSP, U+1680, U+2000 to U+200A, LS, PS, U+202F, U+205F,
  U+3000 and the byte order mark.
\<close>

definition js_whitespace :: "16 word \<Rightarrow> bool" where
  "js_whitespace c =
     (c = 0x09 \<or> c = 0x0A \<or> c = 0x0B \<or> c = 0x0C \<or> c = 0x0D \<or> c = 0x20 \<or> c = 0xA0
      \<or> c = 0x1680 \<or> (0x2000 \<le> c \<and> c \<le> 0x200A) \<or> c = 0x2028 \<or> c = 0x2029
      \<or> c = 0x202F \<or> c = 0x205F \<or> c = 0x3000 \<or> c = 0xFEFF)"

definition trim :: "jsstring \<Rightarrow> jsstring" where
  "trim s = rev (dropWhile js_whitespace (rev (dropWhile js_whitespace s)))"

definition js_digit :: "16 word \<Rightarrow> bool" where
  "js_digit c = (0x30 \<le> c \<and> c \<le> 0x39)"

text \<open>The regular expression \<^verbatim>\<open>/^[0-9]{12}$/\<close> (no flags): exactly twelve ASCII digits.\<close>

definition rutValido :: "jsstring \<Rightarrow> bool" where
  "rutValido s = (length s = 12 \<and> list_all js_digit s)"

section \<open>JavaScript numbers\<close>

text \<open>
  A number is a double: a finite value, an infinity or NaN. Finite results are taken
  exactly, as the double operations are on the integers that a page, a limit and a row
  count can be; the sign of zero is left out.
\<close>

datatype jsnumber = Finite real | PosInfinity | NegInfinity | NaN

fun js_zero :: "jsnumber \<Rightarrow> bool" where
  "js_zero (Finite a) = (a = 0)"
| "js_zero _ = False"

fun js_negative :: "jsnumber \<Rightarrow> bool" where
  "js_negative (Finite a) = (a < 0)"
| "js_negative NegInfinity = True"
| "js_negative _ = False"

fun js_sub :: "jsnumber \<Rightarrow> jsnumber \<Rightarrow> jsnumber" where
  "js_sub (Finite a) (Finite b) = Finite (a - b)"
| "js_sub NaN _ = NaN"
| "js_sub _ NaN = NaN"
| "js_sub PosInfinity PosInfinity = NaN"
| "js_sub NegInfinity NegInfinity = NaN"
| "js_sub PosInfinity _ = PosInfinity"
| "js_sub NegInfinity _ = NegInfinity"
| "js_sub (Finite a) PosInfinity = NegInfinity"
| "js_sub (Finite a) NegInfinity = PosInfinity"

fun js_mul :: "jsnumber \<Rightarrow> jsnumber \<Rightarrow> jsnumber" where
  "js_mul (Finite a) (Finite b) = Finite (a * b)"
| "js_mul NaN _ = NaN"
| "js_mul _ NaN = NaN"
| "js_mul x y =
     (if js_zero x \<or> js_zero y then NaN
      else if js_negative x = js_negative y then PosInfinity
      else NegInfinity)"

fun js_div :: "jsnumber \<Rightarrow> jsnumber \<Rightarrow> jsnumber" where
  "js_div (Finite a) (Finite b) =
     (if b \<noteq> 0 then Finite (a / b)
      else if a = 0 then NaN
      else if 0 < a then PosInfinity
      else NegInfinity)"
| "js_div NaN _ = NaN"
| "js_div _ NaN = NaN"
| "js_div (Finite a) _ = Finite 0"
| "js_div x (Finite b) =
     (if js_negative x = (b < 0) then PosInfinity else NegInfinity)"
| "js_div _ _ = NaN"

text \<open>\<^verbatim>\<open>Math.ceil\<close>.\<close>

fun js_ceil :: "jsnumber \<Rightarrow> jsnumber" where
  "js_ceil (Finite a) = Finite (real_of_int \<lceil>a\<rceil>)"
| "js_ceil x = x"



text \<open>The integer that a number is, when it is one.\<close>

fun entero :: "jsnumber \<Rightarrow> int option" where
  "entero (Finite a) = (if real_of_int \<lfloor>a\<rfloor> = a then Some \<lfloor>a\<rfloor> else None)"
| "entero _ = None"

text \<open>
  An integer column of the store holds 32 bits, signed. The store's client throws when
  it is given an integer that does not fit one.
\<close>

definition fuera_de_int4 :: "int \<Rightarrow> bool" where
  "fuera_de_int4 n = (n < - 2147483648 \<or> 2147483647 < n)"

section \<open>Data model\<close>

text \<open>\<^verbatim>\<open>PAISES_VALIDOS\<close> and \<^verbatim>\<open>MONEDAS_VALIDAS\<close> of the validator.\<close>

datatype pais = UY | AR | BR | CL | CO | PE | MX | US | ES

datatype moneda = UYU | USD | ARS | BRL | CLP | COP | PEN | MXN | EUR

text \<open>
  Modelled from the spec: the Prisma schema (the table declarations) is not among the
  sources. The rows below carry the columns that the code reads or writes; the ids are
  the store's 32-bit integers; the roles are the ones the spec and the test seed name;
  a new user row, a new group row and a new chart of accounts row are active by
  default, as the seed and the creation tests expect, and a group row takes its
  creation time from the clock.
\<close>

datatype rol = ADMIN | CONTADOR | OPERATIVO

record Usuario =
  us_id :: "32 word"
  us_email :: jsstring
  us_nombre :: jsstring
  us_activo :: bool

record GrupoEconomico =
  g_id :: "32 word"
  g_nombre :: jsstring
  g_rutControlador :: "jsstring option"
  g_paisPrincipal :: pais
  g_monedaBase :: moneda
  g_fechaCreacion :: nat
  g_activo :: bool

record UsuarioGrupo =
  ug_usuarioId :: "32 word"
  ug_grupoEconomicoId :: "32 word"
  ug_rol :: rol

record ConfiguracionContable =
  cc_grupoEconomicoId :: "32 word"
  cc_permitirAsientosEnPeriodoCerrado :: bool
  cc_requiereAprobacionGlobal :: bool
  cc_montoMinimoAprobacion :: int
  cc_permitirAsientosDescuadrados :: bool
  cc_decimalesMonto :: nat
  cc_decimalesTipoCambio :: nat

record PlanDeCuentas =
  pc_grupoEconomicoId :: "32 word"
  pc_nombre :: jsstring
  pc_descripcion :: jsstring
  pc_activo :: bool

record Empresa =
  e_id :: "32 word"
  e_grupoEconomicoId :: "32 word"
  e_nombre :: jsstring
  e_rut :: jsstring
  e_monedaFuncional :: jsstring
  e_activa :: bool

text \<open>
  The store: one list of rows per table, named after the Prisma delegates, in insertion
  order, and the sequence that numbers the group rows.
\<close>

record Database =
  usuario :: "Usuario list"
  grupoEconomico :: "GrupoEconomico list"
  usuarioGrupo :: "UsuarioGrupo list"
  configuracionContable :: "ConfiguracionContable list"
  planDeCuentas :: "PlanDeCuentas list"
  empresa :: "Empresa list"
  grupoEconomico_seq :: "32 word"

subsection \<open>The validated inputs\<close>

record CreateGrupoDto =
  c_nombre :: jsstring
  c_rutControlador :: "jsstring option"
  c_paisPrincipal :: pais
  c_monedaBase :: moneda

record UpdateGrupoDto =
  u_nombre :: "jsstring option"
  u_rutControlador :: "jsstring option"
  u_paisPrincipal :: "pais option"
  u_monedaBase :: "moneda option"
  u_activo :: "bool option"

text \<open>
  \<^verbatim>\<open>page\<close> and \<^verbatim>\<open>limit\<close> are what \<^verbatim>\<open>Number\<close> makes of the query strings: any number.
\<close>

record ListGruposQuery =
  q_page :: jsnumber
  q_limit :: jsnumber
  q_search :: "jsstring option"
  q_activo :: "bool option"
  q_paisPrincipal :: "pais option"

subsection \<open>Errors\<close>

text \<open>
  The classes of \<^verbatim>\<open>lib/errors.ts\<close> that this slice throws, the validation library's
  error (a list of issues, each a path and an issue code), the errors of the store's
  client (a request that the store refuses, with its code, and an argument that the
  client does not take), and the runtime's error for a property read on \<^verbatim>\<open>null\<close>. Message
  texts are not modelled; the rule of a business rule error is.
\<close>

datatype zod_code =
  invalid_type | too_small | too_big | invalid_string | invalid_enum_value | invalid_union
  | custom

datatype error =
    ZodError "(string \<times> zod_code) list"
  | ValidationError "(string \<times> zod_code list) list"
  | UnauthorizedError
  | NotFoundError
  | ForbiddenError
  | ConflictError
  | BusinessRuleError "string option"
  | PrismaClientKnownRequestError string
  | PrismaClientValidationError
  | TypeError

section \<open>Repository\<close>

text \<open>The rows returned by the reads, with the relations they include.\<close>

record GrupoListado =
  l_grupo :: GrupoEconomico
  l_count_empresas :: nat

record Pagination =
  pg_page :: jsnumber
  pg_limit :: jsnumber
  pg_total :: int
  pg_totalPages :: jsnumber

record ListadoGrupos =
  l_data :: "GrupoListado list"
  l_pagination :: Pagination

record GrupoDetalle =
  d_grupo :: GrupoEconomico
  d_empresas :: "Empresa list"
  d_planDeCuentas :: "PlanDeCuentas option"
  d_configuracion :: "ConfiguracionContable option"

record GrupoActualizado =
  a_grupo :: GrupoEconomico
  a_empresas :: "Empresa list"
  a_planDeCuentas :: "PlanDeCuentas option"

definition empresasDe :: "32 word \<Rightarrow> Database \<Rightarrow> Empresa list" where
  "empresasDe gid db = filter (\<lambda>e. e_grupoEconomicoId e = gid) (empresa db)"

text \<open>
  The dynamic \<^verbatim>\<open>where\<close> of \<^verbatim>\<open>findMany\<close>. The store's case-insensitive substring test
  (\<^verbatim>\<open>contains\<close> with \<^verbatim>\<open>mode: 'insensitive'\<close>) is the parameter \<open>contiene\<close>. A filter is
  applied when its value is truthy (\<^verbatim>\<open>search\<close>, \<^verbatim>\<open>paisPrincipal\<close>) or defined (\<^verbatim>\<open>activo\<close>).
\<close>

definition where_grupo ::
  "(jsstring \<Rightarrow> jsstring \<Rightarrow> bool) \<Rightarrow> ListGruposQuery \<Rightarrow> GrupoEconomico \<Rightarrow> bool" where
  "where_grupo contiene filters g =
     ((case q_search filters of
         None \<Rightarrow> True
       | Some s \<Rightarrow>
           if s = [] then True
           else contiene (g_nombre g) s \<or>
                (case g_rutControlador g of None \<Rightarrow> False | Some r \<Rightarrow> contiene r s))
      \<and> (case q_activo filters of None \<Rightarrow> True | Some a \<Rightarrow> g_activo g = a)
      \<and> (case q_paisPrincipal filters of None \<Rightarrow> True | Some p \<Rightarrow> g_paisPrincipal g = p))"

text \<open>
  \<^verbatim>\<open>orderBy: { fechaCreacion: 'desc' }\<close>: latest first. Rows of the same creation time
  stay in table order here; the store leaves their order open.
\<close>

definition orderBy_fechaCreacion_desc :: "GrupoEconomico list \<Rightarrow> GrupoEconomico list" where
  "orderBy_fechaCreacion_desc gs = sort_key (\<lambda>g. - int (g_fechaCreacion g)) gs"

text \<open>
  The page of \<^verbatim>\<open>skip\<close> and \<^verbatim>\<open>take\<close> on the ordered rows; a negative \<^verbatim>\<open>take\<close> counts from
  the end of the list.
\<close>

definition pagina :: "int \<Rightarrow> int \<Rightarrow> 'a list \<Rightarrow> 'a list" where
  "pagina skip tk xs =
     (if 0 \<le> tk then take (nat tk) (drop (nat skip) xs)
      else rev (take (nat (- tk)) (drop (nat skip) (rev xs))))"

text \<open>
  \<^verbatim>\<open>findMany\<close> computes \<^verbatim>\<open>skip = (page - 1) * limit\<close> and passes it with \<^verbatim>\<open>take: limit\<close> to
  the store's client, which throws unless both are integers it takes: \<^verbatim>\<open>skip\<close> from zero
  up to its largest integer, \<^verbatim>\<open>take\<close> from its least integer up to its largest. The
  largest integer is a constant of the client and the parameter \<open>maxInt\<close> here; the least
  is \<open>- maxInt - 1\<close>. When the page query or the
  count throws, so does \<^verbatim>\<open>findMany\<close>; otherwise it returns the rows and the pagination
  with \<^verbatim>\<open>Math.ceil(total / limit)\<close>.
\<close>

definition findMany ::
  "(jsstring \<Rightarrow> jsstring \<Rightarrow> bool) \<Rightarrow> int \<Rightarrow> ListGruposQuery \<Rightarrow> Database
     \<Rightarrow> error + ListadoGrupos" where
  "findMany contiene maxInt filters db =
     (let skip = js_mul (js_sub (q_page filters) (Finite 1)) (q_limit filters);
          matching = filter (where_grupo contiene filters) (grupoEconomico db);
          total = int (length matching)
      in case (entero skip, entero (q_limit filters)) of
           (Some s, Some t) \<Rightarrow>
             if s < 0 \<or> maxInt < s \<or> t < - maxInt - 1 \<or> maxInt < t
             then Inl PrismaClientValidationError
             else
               Inr \<lparr> l_data =
                       map (\<lambda>g. \<lparr> l_grupo = g,
                                  l_count_empresas = length (empresasDe (g_id g) db) \<rparr>)
                         (pagina s t (orderBy_fechaCreacion_desc matching)),
                     l_pagination =
                       \<lparr> pg_page = q_page filters, pg_limit = q_limit filters,
                         pg_total = total,
                         pg_totalPages =
                           js_ceil (js_div (Finite (real_of_int total)) (q_limit filters)) \<rparr> \<rparr>
         | _ \<Rightarrow> Inl PrismaClientValidationError)"

text \<open>
  The reads and writes by id. The id is the integer that the caller passes; the client
  throws when it does not fit the column, and the row is looked up otherwise.
\<close>

definition findById :: "int \<Rightarrow> Database \<Rightarrow> error + GrupoDetalle option" where
  "findById gid db =
     (if fuera_de_int4 gid then Inl PrismaClientValidationError
      else
        Inr (case find (\<lambda>g. sint (g_id g) = gid) (grupoEconomico db) of
               None \<Rightarrow> None
             | Some g \<Rightarrow>
                 Some \<lparr> d_grupo = g,
                        d_empresas = empresasDe (g_id g) db,
                        d_planDeCuentas =
                          find (\<lambda>p. pc_grupoEconomicoId p = g_id g) (planDeCuentas db),
                        d_configuracion =
                          find (\<lambda>c. cc_grupoEconomicoId c = g_id g)
                            (configuracionContable db) \<rparr>))"

definition verificarAccesoUsuario :: "int \<Rightarrow> int \<Rightarrow> Database \<Rightarrow> error + bool" where
  "verificarAccesoUsuario grupoId usuarioId db =
     (if fuera_de_int4 usuarioId \<or> fuera_de_int4 grupoId then Inl PrismaClientValidationError
      else
        Inr (find (\<lambda>m. sint (ug_usuarioId m) = usuarioId \<and> sint (ug_grupoEconomicoId m) = grupoId)
               (usuarioGrupo db) \<noteq> None))"

definition exists_grupo :: "int \<Rightarrow> Database \<Rightarrow> error + bool" where
  "exists_grupo gid db =
     (if fuera_de_int4 gid then Inl PrismaClientValidationError
      else Inr (0 < length (filter (\<lambda>g. sint (g_id g) = gid) (grupoEconomico db))))"

text \<open>
  \<^verbatim>\<open>create\<close> runs five statements in one \<^verbatim>\<open>$transaction\<close>. Any of them may be refused
  by the store; \<open>falla\<close> gives, for each statement, the code of the error it throws, or
  \<open>None\<close> when it goes through. The group insert is also refused (P2002) when the
  primary key is taken, and the client does not take the membership insert when the
  creator's id does not fit the column. A statement that throws leaves the callback,
  the transaction is rolled back and the error propagates: the tables are the ones the
  transaction started from. The sequence that numbered the group row is not rolled
  back.
\<close>

datatype paso =
    InsertGrupoEconomico
  | InsertUsuarioGrupo
  | InsertConfiguracionContable
  | InsertPlanDeCuentas
  | FindUniqueGrupoEconomico

definition clave_tomada :: "32 word \<Rightarrow> Database \<Rightarrow> bool" where
  "clave_tomada k db = list_ex (\<lambda>g. g_id g = k) (grupoEconomico db)"

definition nuevoGrupo :: "32 word \<Rightarrow> nat \<Rightarrow> CreateGrupoDto \<Rightarrow> GrupoEconomico" where
  "nuevoGrupo gid ahora d =
     \<lparr> g_id = gid,
       g_nombre = c_nombre d,
       g_rutControlador =
         (case c_rutControlador d of
            None \<Rightarrow> None
          | Some r \<Rightarrow> if r = [] then None else Some r),
       g_paisPrincipal = c_paisPrincipal d,
       g_monedaBase = c_monedaBase d,
       g_fechaCreacion = ahora,
       g_activo = True \<rparr>"

definition nuevaMembresia :: "int \<Rightarrow> 32 word \<Rightarrow> UsuarioGrupo" where
  "nuevaMembresia creadoPorUsuarioId gid =
     \<lparr> ug_usuarioId = word_of_int creadoPorUsuarioId, ug_grupoEconomicoId = gid,
       ug_rol = ADMIN \<rparr>"

definition configuracionPorDefecto :: "32 word \<Rightarrow> ConfiguracionContable" where
  "configuracionPorDefecto gid =
     \<lparr> cc_grupoEconomicoId = gid,
       cc_permitirAsientosEnPeriodoCerrado = False,
       cc_requiereAprobacionGlobal = False,
       cc_montoMinimoAprobacion = 50000,
       cc_permitirAsientosDescuadrados = False,
       cc_decimalesMonto = 2,
       cc_decimalesTipoCambio = 4 \<rparr>"

definition nuevoPlan :: "GrupoEconomico \<Rightarrow> PlanDeCuentas" where
  "nuevoPlan g =
     \<lparr> pc_grupoEconomicoId = g_id g,
       pc_nombre = js ''Plan de cuentas - '' @ g_nombre g,
       pc_descripcion = js ''Plan de cuentas por defecto'',
       pc_activo = True \<rparr>"

text \<open>The callback of the transaction, on the transaction's own view of the store.\<close>

definition create_tx ::
  "(paso \<Rightarrow> string option) \<Rightarrow> nat \<Rightarrow> CreateGrupoDto \<Rightarrow> int \<Rightarrow> Database
     \<Rightarrow> error + (GrupoDetalle option \<times> Database)" where
  "create_tx falla ahora d creadoPorUsuarioId tx =
     (case falla InsertGrupoEconomico of
        Some c \<Rightarrow> Inl (PrismaClientKnownRequestError c)
      | None \<Rightarrow>
     let grupo = nuevoGrupo (grupoEconomico_seq tx) ahora d in
     if clave_tomada (g_id grupo) tx then Inl (PrismaClientKnownRequestError ''P2002'')
     else
     let tx1 = tx \<lparr> grupoEconomico := grupoEconomico tx @ [grupo],
                   grupoEconomico_seq := grupoEconomico_seq tx + 1 \<rparr> in
     if fuera_de_int4 creadoPorUsuarioId then Inl PrismaClientValidationError
     else
     (case falla InsertUsuarioGrupo of
        Some c \<Rightarrow> Inl (PrismaClientKnownRequestError c)
      | None \<Rightarrow>
     let tx2 = tx1 \<lparr> usuarioGrupo :=
                       usuarioGrupo tx1 @ [nuevaMembresia creadoPorUsuarioId (g_id grupo)] \<rparr> in
     (case falla InsertConfiguracionContable of
        Some c \<Rightarrow> Inl (PrismaClientKnownRequestError c)
      | None \<Rightarrow>
     let tx3 = tx2 \<lparr> configuracionContable :=
                       configuracionContable tx2 @ [configuracionPorDefecto (g_id grupo)] \<rparr> in
     (case falla InsertPlanDeCuentas of
        Some c \<Rightarrow> Inl (PrismaClientKnownRequestError c)
      | None \<Rightarrow>
     let tx4 = tx3 \<lparr> planDeCuentas := planDeCuentas tx3 @ [nuevoPlan grupo] \<rparr> in
     (case falla FindUniqueGrupoEconomico of
        Some c \<Rightarrow> Inl (PrismaClientKnownRequestError c)
      | None \<Rightarrow>
          (case findById (sint (g_id grupo)) tx4 of
             Inl e \<Rightarrow> Inl e
           | Inr r \<Rightarrow> Inr (r, tx4)))))))"

definition create ::
  "(paso \<Rightarrow> string option) \<Rightarrow> nat \<Rightarrow> CreateGrupoDto \<Rightarrow> int \<Rightarrow> Database
     \<Rightarrow> (error + GrupoDetalle option) \<times> Database" where
  "create falla ahora d creadoPorUsuarioId db =
     (case create_tx falla ahora d creadoPorUsuarioId db of
        Inl e \<Rightarrow>
          (Inl e,
           if falla InsertGrupoEconomico = None
           then db \<lparr> grupoEconomico_seq := grupoEconomico_seq db + 1 \<rparr>
           else db)
      | Inr (r, tx') \<Rightarrow> (Inr r, tx'))"

text \<open>
  \<^verbatim>\<open>update\<close> writes the columns that the spreads put into \<^verbatim>\<open>data\<close>: \<^verbatim>\<open>nombre\<close>,
  \<^verbatim>\<open>paisPrincipal\<close> and \<^verbatim>\<open>monedaBase\<close> when truthy, \<^verbatim>\<open>rutControlador\<close> and \<^verbatim>\<open>activo\<close>
  when not \<^verbatim>\<open>undefined\<close>, the former as \<^verbatim>\<open>rutControlador || null\<close>. The store throws
  P2025 when no row has the id.
\<close>

definition aplicarUpdate :: "UpdateGrupoDto \<Rightarrow> GrupoEconomico \<Rightarrow> GrupoEconomico" where
  "aplicarUpdate d g =
     g \<lparr> g_nombre :=
           (case u_nombre d of
              None \<Rightarrow> g_nombre g
            | Some n \<Rightarrow> if n = [] then g_nombre g else n),
         g_rutControlador :=
           (case u_rutControlador d of
              None \<Rightarrow> g_rutControlador g
            | Some r \<Rightarrow> if r = [] then None else Some r),
         g_paisPrincipal :=
           (case u_paisPrincipal d of None \<Rightarrow> g_paisPrincipal g | Some p \<Rightarrow> p),
         g_monedaBase :=
           (case u_monedaBase d of None \<Rightarrow> g_monedaBase g | Some m \<Rightarrow> m),
         g_activo :=
           (case u_activo d of None \<Rightarrow> g_activo g | Some a \<Rightarrow> a) \<rparr>"

definition update ::
  "int \<Rightarrow> UpdateGrupoDto \<Rightarrow> Database \<Rightarrow> (error + GrupoActualizado) \<times> Database" where
  "update gid d db =
     (if fuera_de_int4 gid then (Inl PrismaClientValidationError, db)
      else
        case find (\<lambda>g. sint (g_id g) = gid) (grupoEconomico db) of
          None \<Rightarrow> (Inl (PrismaClientKnownRequestError ''P2025''), db)
        | Some g \<Rightarrow>
            (Inr \<lparr> a_grupo = aplicarUpdate d g,
                   a_empresas = empresasDe (g_id g) db,
                   a_planDeCuentas =
                     find (\<lambda>p. pc_grupoEconomicoId p = g_id g) (planDeCuentas db) \<rparr>,
             db \<lparr> grupoEconomico :=
                    map (\<lambda>r. if sint (g_id r) = gid then aplicarUpdate d r else r)
                      (grupoEconomico db) \<rparr>))"

definition delete ::
  "int \<Rightarrow> Database \<Rightarrow> (error + GrupoEconomico) \<times> Database" where
  "delete gid db =
     (if fuera_de_int4 gid then (Inl PrismaClientValidationError, db)
      else
        case find (\<lambda>g. sint (g_id g) = gid) (grupoEconomico db) of
          None \<Rightarrow> (Inl (PrismaClientKnownRequestError ''P2025''), db)
        | Some g \<Rightarrow>
            (Inr (g \<lparr> g_activo := False \<rparr>),
             db \<lparr> grupoEconomico :=
                    map (\<lambda>r. if sint (g_id r) = gid then r \<lparr> g_activo := False \<rparr> else r)
                      (grupoEconomico db) \<rparr>))"

section \<open>Service\<close>

definition listar ::
  "(jsstring \<Rightarrow> jsstring \<Rightarrow> bool) \<Rightarrow> int \<Rightarrow> ListGruposQuery \<Rightarrow> int \<Rightarrow> Database
     \<Rightarrow> error + ListadoGrupos" where
  "listar contiene maxInt filters usuarioId db = findMany contiene maxInt filters db"


text \<open>
  \<^verbatim>\<open>validarDatosGrupo\<close> takes a \<^verbatim>\<open>Partial<CreateGrupoDto>\<close>: every field may be absent.
  \<^verbatim>\<open>crear\<close> passes its DTO, \<^verbatim>\<open>actualizar\<close> passes the update DTO under a cast.
\<close>

record ParcialGrupoDto =
  p_nombre :: "jsstring option"
  p_rutControlador :: "jsstring option"
  p_paisPrincipal :: "pais option"
  p_monedaBase :: "moneda option"

definition parcialDeCreate :: "CreateGrupoDto \<Rightarrow> ParcialGrupoDto" where
  "parcialDeCreate d =
     \<lparr> p_nombre = Some (c_nombre d), p_rutControlador = c_rutControlador d,
       p_paisPrincipal = Some (c_paisPrincipal d), p_monedaBase = Some (c_monedaBase d) \<rparr>"

definition parcialDeUpdate :: "UpdateGrupoDto \<Rightarrow> ParcialGrupoDto" where
  "parcialDeUpdate d =
     \<lparr> p_nombre = u_nombre d, p_rutControlador = u_rutControlador d,
       p_paisPrincipal = u_paisPrincipal d, p_monedaBase = u_monedaBase d \<rparr>"

text \<open>A string is truthy when it is present and not empty.\<close>

definition truthy :: "jsstring option \<Rightarrow> bool" where
  "truthy v = (case v of None \<Rightarrow> False | Some s \<Rightarrow> s \<noteq> [])"

definition validarDatosGrupo :: "ParcialGrupoDto \<Rightarrow> error + unit" where
  "validarDatosGrupo d =
     (if (case p_nombre d of None \<Rightarrow> False | Some n \<Rightarrow> n \<noteq> [] \<and> length (trim n) < 3)
      then Inl (BusinessRuleError None)
      else if (case p_rutControlador d of None \<Rightarrow> False | Some r \<Rightarrow> r \<noteq> [] \<and> \<not> rutValido r)
      then Inl (BusinessRuleError None)
      else if p_paisPrincipal d = Some UY \<and>
              (case p_monedaBase d of None \<Rightarrow> False | Some m \<Rightarrow> m \<notin> set [UYU, USD])
      then Inl (BusinessRuleError (Some ''MONEDA_INVALIDA_PAIS''))
      else Inr ())"

text \<open>
  After \<^verbatim>\<open>create\<close> has returned, \<^verbatim>\<open>crear\<close> logs \<^verbatim>\<open>grupo!.id\<close>, which throws on the
  \<^verbatim>\<open>null\<close> that the type of \<^verbatim>\<open>create\<close> allows.
\<close>

definition crear ::
  "(paso \<Rightarrow> string option) \<Rightarrow> nat \<Rightarrow> CreateGrupoDto \<Rightarrow> int \<Rightarrow> Database
     \<Rightarrow> (error + GrupoDetalle) \<times> Database" where
  "crear falla ahora d usuarioId db =
     (case validarDatosGrupo (parcialDeCreate d) of
        Inl e \<Rightarrow> (Inl e, db)
      | Inr _ \<Rightarrow>
          (case create falla ahora d usuarioId db of
             (Inl e, db') \<Rightarrow> (Inl e, db')
           | (Inr None, db') \<Rightarrow> (Inl TypeError, db')
           | (Inr (Some grupo), db') \<Rightarrow> (Inr grupo, db')))"

definition actualizar ::
  "int \<Rightarrow> UpdateGrupoDto \<Rightarrow> int \<Rightarrow> Database \<Rightarrow> (error + GrupoActualizado) \<times> Database" where
  "actualizar grupoId d usuarioId db =
     (case exists_grupo grupoId db of
        Inl e \<Rightarrow> (Inl e, db)
      | Inr existe \<Rightarrow>
          if \<not> existe then (Inl NotFoundError, db)
          else
            (case verificarAccesoUsuario grupoId usuarioId db of
               Inl e \<Rightarrow> (Inl e, db)
             | Inr tieneAcceso \<Rightarrow>
                 if \<not> tieneAcceso then (Inl ForbiddenError, db)
                 else
                   (case (if truthy (u_nombre d) \<or> u_paisPrincipal d \<noteq> None
                              \<or> u_monedaBase d \<noteq> None
                          then validarDatosGrupo (parcialDeUpdate d) else Inr ()) of
                      Inl e \<Rightarrow> (Inl e, db)
                    | Inr _ \<Rightarrow> update grupoId d db)))"

text \<open>The value \<^verbatim>\<open>{ success: true, message }\<close> that \<^verbatim>\<open>eliminar\<close> returns.\<close>

record ResultadoEliminar =
  success :: bool

definition eliminar ::
  "int \<Rightarrow> int \<Rightarrow> Database \<Rightarrow> (error + ResultadoEliminar) \<times> Database" where
  "eliminar grupoId usuarioId db =
     (case findById grupoId db of
        Inl e \<Rightarrow> (Inl e, db)
      | Inr None \<Rightarrow> (Inl NotFoundError, db)
      | Inr (Some grupo) \<Rightarrow>
          (case verificarAccesoUsuario grupoId usuarioId db of
             Inl e \<Rightarrow> (Inl e, db)
           | Inr tieneAcceso \<Rightarrow>
               if \<not> tieneAcceso then (Inl ForbiddenError, db)
               else if list_ex e_activa (d_empresas grupo)
               then (Inl (BusinessRuleError (Some ''EMPRESAS_ACTIVAS'')), db)
               else
                 (case delete grupoId db of
                    (Inl e, db') \<Rightarrow> (Inl e, db')
                  | (Inr _, db') \<Rightarrow> (Inr \<lparr> success = True \<rparr>, db'))))"

section \<open>Error handler\<close>

text \<open>
  The response that \<^verbatim>\<open>errorHandler\<close> sends for an error of this slice: the status, the
  code, and the details and the rule when the error carries them. An application error
  answers with its own status and code; for a validation library error
  \<^verbatim>\<open>handleZodError\<close> groups the issues by path into the details of a validation error,
  answered with 400; an error of the store's client is translated by
  \<^verbatim>\<open>handlePrismaError\<close> from its code, if it has one; anything else is answered with 500.
\<close>

record Respuesta =
  r_status :: nat
  r_code :: string
  r_details :: "(string \<times> zod_code list) list option"
  r_rule :: "string option"

fun agregarDetalle ::
  "string \<times> zod_code \<Rightarrow> (string \<times> zod_code list) list \<Rightarrow> (string \<times> zod_code list) list" where
  "agregarDetalle (path, m) [] = [(path, [m])]"
| "agregarDetalle (path, m) ((k, ms) # rest) =
     (if k = path then (k, ms @ [m]) # rest else (k, ms) # agregarDetalle (path, m) rest)"

definition handleZodError :: "(string \<times> zod_code) list \<Rightarrow> (string \<times> zod_code list) list" where
  "handleZodError errors = fold agregarDetalle errors []"

definition handlePrismaError :: "string option \<Rightarrow> Respuesta" where
  "handlePrismaError c =
     (if c = Some ''P2002''
      then \<lparr> r_status = 409, r_code = ''CONFLICT'', r_details = None, r_rule = None \<rparr>
      else if c = Some ''P2025''
      then \<lparr> r_status = 404, r_code = ''NOT_FOUND'', r_details = None, r_rule = None \<rparr>
      else if c = Some ''P2003''
      then \<lparr> r_status = 422, r_code = ''BUSINESS_RULE_VIOLATION'', r_details = None, r_rule = None \<rparr>
      else \<lparr> r_status = 500, r_code = ''DATABASE_ERROR'', r_details = None, r_rule = None \<rparr>)"

fun errorHandler :: "error \<Rightarrow> Respuesta" where
  "errorHandler (ValidationError ds) =
     \<lparr> r_status = 400, r_code = ''VALIDATION_ERROR'', r_details = Some ds, r_rule = None \<rparr>"
| "errorHandler UnauthorizedError =
     \<lparr> r_status = 401, r_code = ''UNAUTHORIZED'', r_details = None, r_rule = None \<rparr>"
| "errorHandler NotFoundError =
     \<lparr> r_status = 404, r_code = ''NOT_FOUND'', r_details = None, r_rule = None \<rparr>"
| "errorHandler ForbiddenError =
     \<lparr> r_status = 403, r_code = ''FORBIDDEN'', r_details = None, r_rule = None \<rparr>"
| "errorHandler ConflictError =
     \<lparr> r_status = 409, r_code = ''CONFLICT'', r_details = None, r_rule = None \<rparr>"
| "errorHandler (BusinessRuleError rule) =
     \<lparr> r_status = 422, r_code = ''BUSINESS_RULE_VIOLATION'', r_details = None, r_rule = rule \<rparr>"
| "errorHandler (ZodError errors) =
     \<lparr> r_status = 400, r_code = ''VALIDATION_ERROR'',
       r_details = Some (handleZodError errors), r_rule = None \<rparr>"
| "errorHandler (PrismaClientKnownRequestError c) = handlePrismaError (Some c)"
| "errorHandler PrismaClientValidationError = handlePrismaError None"
| "errorHandler TypeError =
     \<lparr> r_status = 500, r_code = ''INTERNAL_ERROR'', r_details = None, r_rule = None \<rparr>"

section \<open>Authentication\<close>

text \<open>
  \<^verbatim>\<open>authenticateUser\<close>, the \<^verbatim>\<open>preHandler\<close> hook of every route of the module. Its input is
  the header \<^verbatim>\<open>x-user-id\<close>: \<open>None\<close> when the header is absent or empty, otherwise what
  \<^verbatim>\<open>Number\<close> makes of it. The user is looked up by that id; whatever the lookup throws is
  caught and thrown again as an Unauthorized error. A user that is missing is
  Unauthorized; one that is not active, or has no membership, is Forbidden. The request
  then carries the user and the first of its memberships.
\<close>

record RequestUser =
  ru_id :: int
  ru_email :: jsstring
  ru_nombre :: jsstring
  ru_grupoEconomicoId :: int
  ru_rol :: rol

definition authenticateUser :: "jsnumber option \<Rightarrow> Database \<Rightarrow> error + RequestUser" where
  "authenticateUser x_user_id db =
     (case x_user_id of
        None \<Rightarrow> Inl UnauthorizedError
      | Some n \<Rightarrow>
          (case entero n of
             None \<Rightarrow> Inl UnauthorizedError
           | Some i \<Rightarrow>
               if fuera_de_int4 i then Inl UnauthorizedError
               else
                 (case find (\<lambda>u. sint (us_id u) = i) (usuario db) of
                    None \<Rightarrow> Inl UnauthorizedError
                  | Some u \<Rightarrow>
                      if \<not> us_activo u then Inl ForbiddenError
                      else
                        (case filter (\<lambda>m. ug_usuarioId m = us_id u) (usuarioGrupo db) of
                           [] \<Rightarrow> Inl ForbiddenError
                         | grupoActivo # _ \<Rightarrow>
                             Inr \<lparr> ru_id = sint (us_id u),
                                   ru_email = us_email u,
                                   ru_nombre = us_nombre u,
                                   ru_grupoEconomicoId =
                                     sint (ug_grupoEconomicoId grupoActivo),
                                   ru_rol = ug_rol grupoActivo \<rparr>))))"

section \<open>Validators\<close>

text \<open>
  The untrusted values that reach a schema. \<open>JsOther\<close> stands for \<^verbatim>\<open>null\<close>, numbers,
  arrays and objects, which none of the field schemas of a group accepts.
\<close>

datatype unknown = JsUndefined | JsString jsstring | JsBoolean bool | JsOther

record GrupoBody =
  b_nombre :: unknown
  b_rutControlador :: unknown
  b_paisPrincipal :: unknown
  b_monedaBase :: unknown
  b_activo :: unknown

text \<open>
  \<^verbatim>\<open>z.string().min(3).max(200).trim()\<close>: the checks of a string schema run in the order
  they were chained, each on the current value, and every failed check adds its issue.
  \<^verbatim>\<open>min\<close> and \<^verbatim>\<open>max\<close> come before \<^verbatim>\<open>trim\<close> in the chain.
\<close>

definition parseNombre :: "unknown \<Rightarrow> zod_code list + jsstring" where
  "parseNombre v =
     (case v of
        JsString s \<Rightarrow>
          (let issues = (if length s < 3 then [too_small] else []) @
                        (if 200 < length s then [too_big] else [])
           in if issues = [] then Inr (trim s) else Inl issues)
      | _ \<Rightarrow> Inl [invalid_type])"

text \<open>
  \<^verbatim>\<open>z.string().regex(/^[0-9]{12}$/).optional().or(z.literal(''))\<close>: absent, twelve digits,
  or the empty string.
\<close>

definition parseRutControlador :: "unknown \<Rightarrow> zod_code list + jsstring option" where
  "parseRutControlador v =
     (case v of
        JsUndefined \<Rightarrow> Inr None
      | JsString s \<Rightarrow>
          if rutValido s then Inr (Some s)
          else if s = [] then Inr (Some [])
          else Inl [invalid_string]
      | _ \<Rightarrow> Inl [invalid_union])"

definition PAISES_VALIDOS :: "(jsstring \<times> pais) list" where
  "PAISES_VALIDOS =
     [(js ''UY'', UY), (js ''AR'', AR), (js ''BR'', BR), (js ''CL'', CL), (js ''CO'', CO),
      (js ''PE'', PE), (js ''MX'', MX), (js ''US'', US), (js ''ES'', ES)]"

definition MONEDAS_VALIDAS :: "(jsstring \<times> moneda) list" where
  "MONEDAS_VALIDAS =
     [(js ''UYU'', UYU), (js ''USD'', USD), (js ''ARS'', ARS), (js ''BRL'', BRL),
      (js ''CLP'', CLP), (js ''COP'', COP), (js ''PEN'', PEN), (js ''MXN'', MXN),
      (js ''EUR'', EUR)]"

definition parseEnum :: "(jsstring \<times> 'a) list \<Rightarrow> unknown \<Rightarrow> zod_code list + 'a" where
  "parseEnum valores v =
     (case v of
        JsString s \<Rightarrow>
          (case map_of valores s of None \<Rightarrow> Inl [invalid_enum_value] | Some x \<Rightarrow> Inr x)
      | _ \<Rightarrow> Inl [invalid_type])"

definition parseOptional ::
  "(unknown \<Rightarrow> zod_code list + 'a) \<Rightarrow> unknown \<Rightarrow> zod_code list + 'a option" where
  "parseOptional parse v =
     (case v of
        JsUndefined \<Rightarrow> Inr None
      | _ \<Rightarrow> (case parse v of Inl is \<Rightarrow> Inl is | Inr x \<Rightarrow> Inr (Some x)))"

definition parseBoolean :: "unknown \<Rightarrow> zod_code list + bool" where
  "parseBoolean v = (case v of JsBoolean b \<Rightarrow> Inr b | _ \<Rightarrow> Inl [invalid_type])"

text \<open>The issues of one key of an object schema, each under the key's path.\<close>

definition issuesDe :: "string \<Rightarrow> zod_code list + 'a \<Rightarrow> (string \<times> zod_code) list" where
  "issuesDe path r = (case r of Inl is \<Rightarrow> map (Pair path) is | Inr _ \<Rightarrow> [])"

text \<open>
  \<^verbatim>\<open>CreateGrupoSchema.parse\<close>: every key is parsed, and the parse throws the issues of
  all of them together.
\<close>

definition validateCreateGrupo :: "GrupoBody \<Rightarrow> error + CreateGrupoDto" where
  "validateCreateGrupo body =
     (let n = parseNombre (b_nombre body);
          r = parseRutControlador (b_rutControlador body);
          p = parseEnum PAISES_VALIDOS (b_paisPrincipal body);
          m = parseEnum MONEDAS_VALIDAS (b_monedaBase body)
      in case (n, r, p, m) of
           (Inr n', Inr r', Inr p', Inr m') \<Rightarrow>
             Inr \<lparr> c_nombre = n', c_rutControlador = r', c_paisPrincipal = p',
                   c_monedaBase = m' \<rparr>
         | _ \<Rightarrow>
             Inl (ZodError (issuesDe ''nombre'' n @ issuesDe ''rutControlador'' r @
                            issuesDe ''paisPrincipal'' p @ issuesDe ''monedaBase'' m)))"

definition validateUpdateGrupo :: "GrupoBody \<Rightarrow> error + UpdateGrupoDto" where
  "validateUpdateGrupo body =
     (let n = parseOptional parseNombre (b_nombre body);
          r = parseRutControlador (b_rutControlador body);
          p = parseOptional (parseEnum PAISES_VALIDOS) (b_paisPrincipal body);
          m = parseOptional (parseEnum MONEDAS_VALIDAS) (b_monedaBase body);
          a = parseOptional parseBoolean (b_activo body)
      in case (n, r, p, m, a) of
           (Inr n', Inr r', Inr p', Inr m', Inr a') \<Rightarrow>
             Inr \<lparr> u_nombre = n', u_rutControlador = r', u_paisPrincipal = p',
                   u_monedaBase = m', u_activo = a' \<rparr>
         | _ \<Rightarrow>
             Inl (ZodError (issuesDe ''nombre'' n @ issuesDe ''rutControlador'' r @
                            issuesDe ''paisPrincipal'' p @ issuesDe ''monedaBase'' m @
                            issuesDe ''activo'' a)))"


section \<open>Routes\<close>

text \<open>
  A request first passes the authentication hook; the handler then parses its input,
  calls the service with the id of the request's user and sends the result. Whatever
  is thrown on the way reaches \<^verbatim>\<open>errorHandler\<close>. The id of the path is the integer that
  its digits denote.
\<close>

datatype 'a reply = Send nat 'a | SendError Respuesta

definition post_grupos ::
  "(paso \<Rightarrow> string option) \<Rightarrow> nat \<Rightarrow> jsnumber option \<Rightarrow> GrupoBody \<Rightarrow> Database
     \<Rightarrow> GrupoDetalle reply \<times> Database" where
  "post_grupos falla ahora x_user_id body db =
     (case authenticateUser x_user_id db of
        Inl e \<Rightarrow> (SendError (errorHandler e), db)
      | Inr user \<Rightarrow>
          (case validateCreateGrupo body of
             Inl e \<Rightarrow> (SendError (errorHandler e), db)
           | Inr d \<Rightarrow>
               (case crear falla ahora d (ru_id user) db of
                  (Inl e, db') \<Rightarrow> (SendError (errorHandler e), db')
                | (Inr grupo, db') \<Rightarrow> (Send 201 grupo, db'))))"

definition put_grupos ::
  "int \<Rightarrow> jsnumber option \<Rightarrow> GrupoBody \<Rightarrow> Database \<Rightarrow> GrupoActualizado reply \<times> Database" where
  "put_grupos gid x_user_id body db =
     (case authenticateUser x_user_id db of
        Inl e \<Rightarrow> (SendError (errorHandler e), db)
      | Inr user \<Rightarrow>
          (case validateUpdateGrupo body of
             Inl e \<Rightarrow> (SendError (errorHandler e), db)
           | Inr d \<Rightarrow>
               (case actualizar gid d (ru_id user) db of
                  (Inl e, db') \<Rightarrow> (SendError (errorHandler e), db')
                | (Inr grupo, db') \<Rightarrow> (Send 200 grupo, db'))))"

section \<open>Sequences of operations\<close>

text \<open>
  The operations of the service, with their arguments, and their effect on the store.
  \<^verbatim>\<open>listar\<close> and \<^verbatim>\<open>obtenerPorId\<close> only read.
\<close>

datatype operacion =
    Listar ListGruposQuery int
  | ObtenerPorId int int
  | Crear "paso \<Rightarrow> string option" nat CreateGrupoDto int
  | Actualizar int UpdateGrupoDto int
  | Eliminar int int

fun ejecutar :: "operacion \<Rightarrow> Database \<Rightarrow> Database" where
  "ejecutar (Listar filters usuarioId) db = db"
| "ejecutar (ObtenerPorId grupoId usuarioId) db = db"
| "ejecutar (Crear falla ahora d usuarioId) db = snd (crear falla ahora d usuarioId db)"
| "ejecutar (Actualizar grupoId d usuarioId) db = snd (actualizar grupoId d usuarioId db)"
| "ejecutar (Eliminar grupoId usuarioId) db = snd (eliminar grupoId usuarioId db)"

section \<open>Sample data\<close>

definition bdVacia :: Database where
  "bdVacia =
     \<lparr> usuario = [], grupoEconomico = [], usuarioGrupo = [], configuracionContable = [],
       planDeCuentas = [], empresa = [], grupoEconomico_seq = 1 \<rparr>"

definition sinFallas :: "paso \<Rightarrow> string option" where
  "sinFallas p = None"

definition usuarioSemilla :: Usuario where
  "usuarioSemilla =
     \<lparr> us_id = 1, us_email = js ''admin@test.com'', us_nombre = js ''Admin Test'',
       us_activo = True \<rparr>"

definition grupoSemilla :: GrupoEconomico where
  "grupoSemilla =
     \<lparr> g_id = 1, g_nombre = js ''Grupo Test 1'', g_rutControlador = Some (js ''217890120018''),
       g_paisPrincipal = UY, g_monedaBase = UYU, g_fechaCreacion = 10, g_activo = True \<rparr>"

definition empresaSemilla :: Empresa where
  "empresaSemilla =
     \<lparr> e_id = 1, e_grupoEconomicoId = 1, e_nombre = js ''Empresa Test 1'',
       e_rut = js ''217890120018'', e_monedaFuncional = js ''UYU'', e_activa = True \<rparr>"

text \<open>
  A store in the shape of the test seed: users 1 and 2, group 1 with user 1 as its
  administrator and one active company, and group 2, without companies, with user 2.
\<close>

definition bdSemilla :: Database where
  "bdSemilla =
     \<lparr> usuario =
         [usuarioSemilla,
          usuarioSemilla \<lparr> us_id := 2, us_email := js ''contador@test.com'',
                           us_nombre := js ''Contador Test'' \<rparr>],
       grupoEconomico =
         [grupoSemilla,
          grupoSemilla \<lparr> g_id := 2, g_nombre := js ''Grupo Test 2'', g_rutControlador := None,
                         g_fechaCreacion := 20 \<rparr>],
       usuarioGrupo =
         [\<lparr> ug_usuarioId = 1, ug_grupoEconomicoId = 1, ug_rol = ADMIN \<rparr>,
          \<lparr> ug_usuarioId = 2, ug_grupoEconomicoId = 2, ug_rol = CONTADOR \<rparr>],
       configuracionContable = [configuracionPorDefecto 1, configuracionPorDefecto 2],
       planDeCuentas = [nuevoPlan grupoSemilla],
       empresa = [empresaSemilla],
       grupoEconomico_seq = 3 \<rparr>"

definition bdCinco :: Database where
  "bdCinco =
     bdVacia \<lparr> grupoEconomico :=
                 map (\<lambda>i. grupoSemilla \<lparr> g_id := of_nat i, g_fechaCreacion := 10 * i \<rparr>)
                   [1, 2, 3, 4, 5],
               grupoEconomico_seq := 6 \<rparr>"

text \<open>
  The queries \<^verbatim>\<open>?page=3&limit=2\<close>, \<^verbatim>\<open>?limit=2.5\<close> and
  \<^verbatim>\<open>?page=100000000000000000000&limit=1\<close>, and the largest integers of 32 and of 64 bits.
\<close>

definition consultaPagina3 :: ListGruposQuery where
  "consultaPagina3 =
     \<lparr> q_page = Finite 3, q_limit = Finite 2, q_search = None, q_activo = None,
       q_paisPrincipal = None \<rparr>"

definition consultaFraccion :: ListGruposQuery where
  "consultaFraccion = consultaPagina3 \<lparr> q_page := Finite 1, q_limit := Finite (5 / 2) \<rparr>"

definition consultaLejana :: ListGruposQuery where
  "consultaLejana =
     consultaPagina3 \<lparr> q_page := Finite 100000000000000000000, q_limit := Finite 1 \<rparr>"



definition dtoAcme :: CreateGrupoDto where
  "dtoAcme =
     \<lparr> c_nombre = js ''Acme Holdings'', c_rutControlador = None, c_paisPrincipal = UY,
       c_monedaBase = UYU \<rparr>"

definition fallaPlan :: "paso \<Rightarrow> string option" where
  "fallaPlan p = (if p = InsertPlanDeCuentas then Some ''P2003'' else None)"

definition dtoVacio :: UpdateGrupoDto where
  "dtoVacio =
     \<lparr> u_nombre = None, u_rutControlador = None, u_paisPrincipal = None,
       u_monedaBase = None, u_activo = None \<rparr>"

definition dtoSoloNombre :: UpdateGrupoDto where
  "dtoSoloNombre = dtoVacio \<lparr> u_nombre := Some (js ''Solo Nombre Cambiado'') \<rparr>"

definition dtoRutVacio :: UpdateGrupoDto where
  "dtoRutVacio = dtoVacio \<lparr> u_rutControlador := Some [] \<rparr>"

definition dtoReactivar :: UpdateGrupoDto where
  "dtoReactivar = dtoVacio \<lparr> u_activo := Some True \<rparr>"

definition bodyVacio :: GrupoBody where
  "bodyVacio =
     \<lparr> b_nombre = JsUndefined, b_rutControlador = JsUndefined, b_paisPrincipal = JsUndefined,
       b_monedaBase = JsUndefined, b_activo = JsUndefined \<rparr>"

text \<open>The bodies \<^verbatim>\<open>{ monedaBase: 'ARS' }\<close> and \<^verbatim>\<open>{ paisPrincipal: 'UY', monedaBase: 'ARS' }\<close>.\<close>

definition bodySoloMoneda :: GrupoBody where
  "bodySoloMoneda = bodyVacio \<lparr> b_monedaBase := JsString (js ''ARS'') \<rparr>"

definition bodyPaisMoneda :: GrupoBody where
  "bodyPaisMoneda =
     bodyVacio \<lparr> b_paisPrincipal := JsString (js ''UY''), b_monedaBase := JsString (js ''ARS'') \<rparr>"

text \<open>
  Create bodies for Argentina whose names are one letter between two pairs of spaces,
  three spaces, and two letters.
\<close>

definition bodyNombre :: "string \<Rightarrow> GrupoBody" where
  "bodyNombre n =
     bodyVacio \<lparr> b_nombre := JsString (js n), b_paisPrincipal := JsString (js ''AR''),
                 b_monedaBase := JsString (js ''ARS'') \<rparr>"

definition bodyRodeado :: GrupoBody where
  "bodyRodeado = bodyNombre ''  a  ''"

definition bodyEspacios :: GrupoBody where
  "bodyEspacios = bodyNombre ''   ''"

definition bodyCorto :: GrupoBody where
  "bodyCorto = bodyNombre ''AB''"

text \<open>A run of every operation of the service on group 2, none of which reactivates it.\<close>

definition operacionesSinReactivar :: "operacion list" where
  "operacionesSinReactivar =
     [Listar consultaPagina3 2, ObtenerPorId 2 2, Crear sinFallas 30 dtoAcme 2,
      Actualizar 2 dtoSoloNombre 2, Eliminar 2 2]"

section \<open>Lemmas about the reads\<close>

lemma find_None_set: "(find P xs = None) = (\<forall>x\<in>set xs. \<not> P x)"
  by (induction xs) auto

lemma find_Some_set: "find P xs = Some x \<Longrightarrow> x \<in> set xs \<and> P x"
  by (induction xs) (auto split: if_splits)

lemma sint_en_rango: "\<not> fuera_de_int4 (sint (w :: 32 word))"
  using sint_lt [of w] sint_ge [of w] by (simp add: fuera_de_int4_def)

lemma sint_inyectiva: "sint (a :: 32 word) = sint b \<Longrightarrow> a = b"
  by (simp add: signed_word_eqI)

lemma sint_word_of_int: "\<not> fuera_de_int4 n \<Longrightarrow> sint (word_of_int n :: 32 word) = n"
  by (simp add: fuera_de_int4_def sint_sbintrunc' signed_take_bit_int_eq_self)


lemma findById_None:
  "\<not> fuera_de_int4 gid \<Longrightarrow>
   (findById gid db = Inr None) = (\<forall>g\<in>set (grupoEconomico db). sint (g_id g) \<noteq> gid)"
  by (auto simp: findById_def find_None_set split: option.splits dest: find_Some_set)

lemma findById_Some:
  "findById gid db = Inr (Some d) \<Longrightarrow>
   d_grupo d \<in> set (grupoEconomico db) \<and> sint (g_id (d_grupo d)) = gid
   \<and> d_empresas d = empresasDe (g_id (d_grupo d)) db"
  by (auto simp: findById_def split: option.splits if_splits dest: find_Some_set)

lemma findById_casos:
  "\<not> fuera_de_int4 gid \<Longrightarrow> findById gid db = Inr None \<or> (\<exists>d. findById gid db = Inr (Some d))"
  by (simp add: findById_def split: option.splits)

lemma verificarAccesoUsuario_set:
  "\<not> fuera_de_int4 gid \<Longrightarrow> \<not> fuera_de_int4 uid \<Longrightarrow>
   verificarAccesoUsuario gid uid db =
     Inr (\<exists>m\<in>set (usuarioGrupo db). sint (ug_usuarioId m) = uid \<and> sint (ug_grupoEconomicoId m) = gid)"
  by (simp add: verificarAccesoUsuario_def find_None_set)


lemma exists_grupo_set:
  "\<not> fuera_de_int4 gid \<Longrightarrow>
   exists_grupo gid db = Inr (\<exists>g\<in>set (grupoEconomico db). sint (g_id g) = gid)"
  by (auto simp: exists_grupo_def filter_empty_conv)

lemma empresasDe_set:
  "list_ex e_activa (empresasDe k db) =
     (\<exists>e\<in>set (empresa db). e_grupoEconomicoId e = k \<and> e_activa e)"
  by (auto simp: empresasDe_def list_ex_iff)

lemma existe_en_rango:
  "\<exists>g\<in>set (grupoEconomico db). sint (g_id g) = gid \<Longrightarrow> \<not> fuera_de_int4 gid"
  using sint_en_rango by auto

lemma miembro_en_rango:
  "\<exists>m\<in>set (usuarioGrupo db). sint (ug_usuarioId m) = uid \<and> sint (ug_grupoEconomicoId m) = gid
   \<Longrightarrow> \<not> fuera_de_int4 uid \<and> \<not> fuera_de_int4 gid"
  using sint_en_rango by auto

lemmas semilla = bdSemilla_def grupoSemilla_def empresaSemilla_def usuarioSemilla_def

lemmas ejemplos = bdVacia_def sinFallas_def dtoAcme_def fallaPlan_def dtoVacio_def
  dtoSoloNombre_def dtoRutVacio_def dtoReactivar_def bodyVacio_def bodySoloMoneda_def
  bodyPaisMoneda_def bodyNombre_def bodyRodeado_def bodyEspacios_def bodyCorto_def
  bdCinco_def consultaPagina3_def consultaFraccion_def consultaLejana_def
  operacionesSinReactivar_def

lemmas modelo = js_def trim_def js_whitespace_def js_digit_def rutValido_def
  fuera_de_int4_def findById_def verificarAccesoUsuario_def exists_grupo_def empresasDe_def
  clave_tomada_def nuevoGrupo_def nuevaMembresia_def configuracionPorDefecto_def
  nuevoPlan_def create_tx_def create_def aplicarUpdate_def update_def delete_def
  parcialDeCreate_def parcialDeUpdate_def truthy_def validarDatosGrupo_def
  crear_def actualizar_def eliminar_def authenticateUser_def
  parseNombre_def parseRutControlador_def parseEnum_def parseOptional_def parseBoolean_def
  PAISES_VALIDOS_def MONEDAS_VALIDAS_def issuesDe_def
  validateCreateGrupo_def validateUpdateGrupo_def post_grupos_def put_grupos_def
  handleZodError_def handlePrismaError_def

section \<open>Reading one group\<close>




section \<open>Listing\<close>

text \<open>
  C9. The result of \<^verbatim>\<open>listar\<close> does not depend on the calling user: for the same filters
  and the same store, two users get the same rows and the same pagination.
\<close>

theorem listar_ignora_usuario:
  "listar contiene maxInt filters u1 db = listar contiene maxInt filters u2 db"
  by (simp add: listar_def)

section \<open>Soft delete\<close>

lemma delete_eq:
  "\<exists>g\<in>set (grupoEconomico db). sint (g_id g) = gid \<Longrightarrow>
   \<exists>g. delete gid db = (Inr g, db \<lparr> grupoEconomico :=
          map (\<lambda>r. if sint (g_id r) = gid then r \<lparr> g_activo := False \<rparr> else r)
            (grupoEconomico db) \<rparr>)"
  using existe_en_rango [of db gid]
  by (cases "find (\<lambda>g. sint (g_id g) = gid) (grupoEconomico db)")
     (auto simp: delete_def find_None_set)

lemma eliminar_ok:
  assumes ex: "\<exists>g\<in>set (grupoEconomico db). sint (g_id g) = gid"
    and acc: "\<exists>m\<in>set (usuarioGrupo db).
                sint (ug_usuarioId m) = uid \<and> sint (ug_grupoEconomicoId m) = gid"
    and noact: "\<forall>e\<in>set (empresa db). sint (e_grupoEconomicoId e) = gid \<longrightarrow> \<not> e_activa e"
  shows "eliminar gid uid db =
     (Inr \<lparr> success = True \<rparr>,
      db \<lparr> grupoEconomico :=
          map (\<lambda>r. if sint (g_id r) = gid then r \<lparr> g_activo := False \<rparr> else r)
            (grupoEconomico db) \<rparr>)"
proof -
  have rg: "\<not> fuera_de_int4 gid" and ru: "\<not> fuera_de_int4 uid"
    using miembro_en_rango [OF acc] by simp_all
  obtain d where d: "findById gid db = Inr (Some d)"
    using ex findById_None [OF rg, of db] findById_casos [OF rg, of db] by auto
  have emp: "d_empresas d = empresasDe (g_id (d_grupo d)) db"
    and gd: "sint (g_id (d_grupo d)) = gid"
    using findById_Some [OF d] by simp_all
  have na: "\<not> list_ex e_activa (d_empresas d)"
    using noact gd by (auto simp: emp empresasDe_set)
  obtain g where g: "delete gid db = (Inr g, db \<lparr> grupoEconomico :=
          map (\<lambda>r. if sint (g_id r) = gid then r \<lparr> g_activo := False \<rparr> else r)
            (grupoEconomico db) \<rparr>)"
    using delete_eq [OF ex] by blast
  show ?thesis
    using acc na by (simp add: eliminar_def d g verificarAccesoUsuario_set [OF rg ru])
qed

lemma eliminar_rechazo:
  assumes ex: "\<exists>g\<in>set (grupoEconomico db). sint (g_id g) = gid"
    and acc: "\<exists>m\<in>set (usuarioGrupo db).
                sint (ug_usuarioId m) = uid \<and> sint (ug_grupoEconomicoId m) = gid"
    and act: "\<exists>e\<in>set (empresa db). sint (e_grupoEconomicoId e) = gid \<and> e_activa e"
  shows "eliminar gid uid db = (Inl (BusinessRuleError (Some ''EMPRESAS_ACTIVAS'')), db)"
proof -
  have rg: "\<not> fuera_de_int4 gid" and ru: "\<not> fuera_de_int4 uid"
    using miembro_en_rango [OF acc] by simp_all
  obtain d where d: "findById gid db = Inr (Some d)"
    using ex findById_None [OF rg, of db] findById_casos [OF rg, of db] by auto
  have emp: "d_empresas d = empresasDe (g_id (d_grupo d)) db"
    and gd: "sint (g_id (d_grupo d)) = gid"
    using findById_Some [OF d] by simp_all
  from act obtain e where e: "e \<in> set (empresa db)" "sint (e_grupoEconomicoId e) = gid"
    "e_activa e" by blast
  have "e_grupoEconomicoId e = g_id (d_grupo d)"
    using e(2) gd by (intro sint_inyectiva) simp
  then have na: "list_ex e_activa (d_empresas d)"
    using e by (auto simp: emp empresasDe_set)
  show ?thesis
    using acc na by (simp add: eliminar_def d verificarAccesoUsuario_set [OF rg ru])
qed

text \<open>
  C4. For a group that exists and to which the caller has a membership row: when one of
  its companies is active, \<^verbatim>\<open>eliminar\<close> throws the business rule error with rule
  EMPRESAS_ACTIVAS, answered with 422, and the store is the one it started from; when
  none of its companies is active, \<^verbatim>\<open>eliminar\<close> succeeds and the store differs only in
  that the rows of that group have \<^verbatim>\<open>activo\<close> false, every other column and every other
  row and table being as before.
\<close>

theorem eliminar_empresas_activas:
  assumes "\<exists>g\<in>set (grupoEconomico db). sint (g_id g) = gid"
    and "\<exists>m\<in>set (usuarioGrupo db).
           sint (ug_usuarioId m) = uid \<and> sint (ug_grupoEconomicoId m) = gid"
  shows "((\<exists>e\<in>set (empresa db). sint (e_grupoEconomicoId e) = gid \<and> e_activa e) \<longrightarrow>
            (\<exists>e. eliminar gid uid db = (Inl e, db)
               \<and> e = BusinessRuleError (Some ''EMPRESAS_ACTIVAS'')
               \<and> r_status (errorHandler e) = 422
               \<and> r_rule (errorHandler e) = Some ''EMPRESAS_ACTIVAS''))
       \<and> ((\<forall>e\<in>set (empresa db). sint (e_grupoEconomicoId e) = gid \<longrightarrow> \<not> e_activa e) \<longrightarrow>
            eliminar gid uid db =
              (Inr \<lparr> success = True \<rparr>,
               db \<lparr> grupoEconomico :=
                      map (\<lambda>r. if sint (g_id r) = gid then r \<lparr> g_activo := False \<rparr> else r)
                        (grupoEconomico db) \<rparr>))"
  using eliminar_ok [OF assms] eliminar_rechazo [OF assms] by simp

theorem eliminar_empresas_activas_witness:
  "eliminar 1 1 bdSemilla = (Inl (BusinessRuleError (Some ''EMPRESAS_ACTIVAS'')), bdSemilla)
   \<and> fst (eliminar 2 2 bdSemilla) = Inr \<lparr> success = True \<rparr>
   \<and> map g_activo (grupoEconomico (snd (eliminar 2 2 bdSemilla))) = [True, False]"
proof -
  have e1: "\<exists>g\<in>set (grupoEconomico bdSemilla). sint (g_id g) = 1"
    and m1: "\<exists>m\<in>set (usuarioGrupo bdSemilla).
               sint (ug_usuarioId m) = 1 \<and> sint (ug_grupoEconomicoId m) = 1"
    and a1: "\<exists>e\<in>set (empresa bdSemilla). sint (e_grupoEconomicoId e) = 1 \<and> e_activa e"
    and e2: "\<exists>g\<in>set (grupoEconomico bdSemilla). sint (g_id g) = 2"
    and m2: "\<exists>m\<in>set (usuarioGrupo bdSemilla).
               sint (ug_usuarioId m) = 2 \<and> sint (ug_grupoEconomicoId m) = 2"
    and a2: "\<forall>e\<in>set (empresa bdSemilla). sint (e_grupoEconomicoId e) = 2 \<longrightarrow> \<not> e_activa e"
    by (simp_all add: semilla)
  have r1: "eliminar 1 1 bdSemilla =
              (Inl (BusinessRuleError (Some ''EMPRESAS_ACTIVAS'')), bdSemilla)"
    using eliminar_empresas_activas [OF e1 m1] a1 by blast
  have r2: "eliminar 2 2 bdSemilla =
              (Inr \<lparr> success = True \<rparr>,
               bdSemilla \<lparr> grupoEconomico :=
                      map (\<lambda>r. if sint (g_id r) = 2 then r \<lparr> g_activo := False \<rparr> else r)
                        (grupoEconomico bdSemilla) \<rparr>)"
    using eliminar_empresas_activas [OF e2 m2] a2 by blast
  show ?thesis
    unfolding r2 using r1 by (simp add: semilla)
qed

text \<open>
  C10. Soft delete is idempotent. For a group that exists, to which the caller has a
  membership row and none of whose companies is active, \<^verbatim>\<open>eliminar\<close> succeeds, and
  running it again on the store it leaves succeeds with the same result and leaves that
  store as it is: nothing checks that the group is still active.
\<close>

theorem eliminar_idempotente:
  assumes ex: "\<exists>g\<in>set (grupoEconomico db). sint (g_id g) = gid"
    and acc: "\<exists>m\<in>set (usuarioGrupo db).
                sint (ug_usuarioId m) = uid \<and> sint (ug_grupoEconomicoId m) = gid"
    and noact: "\<forall>e\<in>set (empresa db). sint (e_grupoEconomicoId e) = gid \<longrightarrow> \<not> e_activa e"
  shows "\<exists>r db1. eliminar gid uid db = (Inr r, db1) \<and> eliminar gid uid db1 = (Inr r, db1)
           \<and> r = \<lparr> success = True \<rparr>"
proof -
  let ?f = "\<lambda>r. if sint (g_id r) = gid then r \<lparr> g_activo := False \<rparr> else r"
  let ?db1 = "db \<lparr> grupoEconomico := map ?f (grupoEconomico db) \<rparr>"
  have one: "eliminar gid uid db = (Inr \<lparr> success = True \<rparr>, ?db1)"
    by (rule eliminar_ok [OF ex acc noact])
  have ex1: "\<exists>g\<in>set (grupoEconomico ?db1). sint (g_id g) = gid"
  proof -
    from ex obtain g where g: "g \<in> set (grupoEconomico db)" "sint (g_id g) = gid" by blast
    then have "?f g \<in> set (grupoEconomico ?db1)" and "sint (g_id (?f g)) = gid" by simp_all
    then show ?thesis by blast
  qed
  have acc1: "\<exists>m\<in>set (usuarioGrupo ?db1).
                sint (ug_usuarioId m) = uid \<and> sint (ug_grupoEconomicoId m) = gid"
    using acc by simp
  have noact1: "\<forall>e\<in>set (empresa ?db1). sint (e_grupoEconomicoId e) = gid \<longrightarrow> \<not> e_activa e"
    using noact by simp
  have idem: "map ?f (map ?f (grupoEconomico db)) = map ?f (grupoEconomico db)"
    by (induction "grupoEconomico db") auto
  have two: "eliminar gid uid ?db1 = (Inr \<lparr> success = True \<rparr>, ?db1)"
    using eliminar_ok [OF ex1 acc1 noact1] by (simp add: idem)
  show ?thesis using one two by blast
qed

theorem eliminar_idempotente_witness:
  "\<exists>r db1. eliminar 2 2 bdSemilla = (Inr r, db1) \<and> eliminar 2 2 db1 = (Inr r, db1)
           \<and> r = \<lparr> success = True \<rparr>"
proof -
  have e2: "\<exists>g\<in>set (grupoEconomico bdSemilla). sint (g_id g) = 2"
    and m2: "\<exists>m\<in>set (usuarioGrupo bdSemilla).
               sint (ug_usuarioId m) = 2 \<and> sint (ug_grupoEconomicoId m) = 2"
    and a2: "\<forall>e\<in>set (empresa bdSemilla). sint (e_grupoEconomicoId e) = 2 \<longrightarrow> \<not> e_activa e"
    by (simp_all add: semilla)
  show ?thesis by (rule eliminar_idempotente [OF e2 m2 a2])
qed

section \<open>Pagination\<close>










section \<open>Partial update\<close>

text \<open>
  C7. On a stored group, the repository's \<^verbatim>\<open>update\<close> succeeds and changes only columns
  that the DTO carries: a column whose field is absent from the DTO keeps its value in
  every row (so a DTO with only a name leaves country, currency, tax id and active flag
  as they were), rows of other groups and the other tables are untouched, the id and the
  creation time never change, and a tax id given as the empty string is stored as null.
\<close>

theorem update_parcial:
  assumes "g \<in> set (grupoEconomico db)" and "sint (g_id g) = gid"
  shows "\<exists>res db'. update gid d db = (Inr res, db')
           \<and> length (grupoEconomico db') = length (grupoEconomico db)
           \<and> (\<forall>i < length (grupoEconomico db).
                 let old = grupoEconomico db ! i; new = grupoEconomico db' ! i
                 in g_id new = g_id old \<and> g_fechaCreacion new = g_fechaCreacion old
                  \<and> (sint (g_id old) \<noteq> gid \<longrightarrow> new = old)
                  \<and> (u_nombre d = None \<longrightarrow> g_nombre new = g_nombre old)
                  \<and> (u_rutControlador d = None \<longrightarrow> g_rutControlador new = g_rutControlador old)
                  \<and> (u_paisPrincipal d = None \<longrightarrow> g_paisPrincipal new = g_paisPrincipal old)
                  \<and> (u_monedaBase d = None \<longrightarrow> g_monedaBase new = g_monedaBase old)
                  \<and> (u_activo d = None \<longrightarrow> g_activo new = g_activo old)
                  \<and> (sint (g_id old) = gid \<and> u_rutControlador d = Some [] \<longrightarrow>
                        g_rutControlador new = None))
           \<and> usuario db' = usuario db
           \<and> usuarioGrupo db' = usuarioGrupo db
           \<and> configuracionContable db' = configuracionContable db
           \<and> planDeCuentas db' = planDeCuentas db
           \<and> empresa db' = empresa db"
proof -
  let ?db' = "db \<lparr> grupoEconomico :=
                  map (\<lambda>r. if sint (g_id r) = gid then aplicarUpdate d r else r)
                    (grupoEconomico db) \<rparr>"
  have rg: "\<not> fuera_de_int4 gid"
    using assms(2) sint_en_rango [of "g_id g"] by simp
  obtain g0 where g0: "find (\<lambda>g. sint (g_id g) = gid) (grupoEconomico db) = Some g0"
    using assms find_None_set [of "\<lambda>g. sint (g_id g) = gid" "grupoEconomico db"]
    by (cases "find (\<lambda>g. sint (g_id g) = gid) (grupoEconomico db)") auto
  have u: "\<exists>res. update gid d db = (Inr res, ?db')"
    using rg by (simp add: update_def g0)
  have rows: "\<forall>i < length (grupoEconomico db).
                 let old = grupoEconomico db ! i; new = grupoEconomico ?db' ! i
                 in g_id new = g_id old \<and> g_fechaCreacion new = g_fechaCreacion old
                  \<and> (sint (g_id old) \<noteq> gid \<longrightarrow> new = old)
                  \<and> (u_nombre d = None \<longrightarrow> g_nombre new = g_nombre old)
                  \<and> (u_rutControlador d = None \<longrightarrow> g_rutControlador new = g_rutControlador old)
                  \<and> (u_paisPrincipal d = None \<longrightarrow> g_paisPrincipal new = g_paisPrincipal old)
                  \<and> (u_monedaBase d = None \<longrightarrow> g_monedaBase new = g_monedaBase old)
                  \<and> (u_activo d = None \<longrightarrow> g_activo new = g_activo old)
                  \<and> (sint (g_id old) = gid \<and> u_rutControlador d = Some [] \<longrightarrow>
                        g_rutControlador new = None)"
    by (simp add: Let_def aplicarUpdate_def)
  show ?thesis
    using u rows by auto
qed

theorem update_parcial_witness:
  "map (\<lambda>g. (g_nombre g, g_rutControlador g, g_paisPrincipal g, g_monedaBase g, g_activo g))
       (grupoEconomico (snd (update 1 dtoSoloNombre bdSemilla)))
     = [(js ''Solo Nombre Cambiado'', Some (js ''217890120018''), UY, UYU, True),
        (js ''Grupo Test 2'', None, UY, UYU, True)]
   \<and> map g_rutControlador (grupoEconomico (snd (update 1 dtoRutVacio bdSemilla))) = [None, None]"
proof -
  have h: "grupoSemilla \<in> set (grupoEconomico bdSemilla)" "sint (g_id grupoSemilla) = 1"
    by (simp_all add: semilla)
  show ?thesis
    using update_parcial [OF h, of dtoSoloNombre] update_parcial [OF h, of dtoRutVacio]
    by (simp add: update_def aplicarUpdate_def fuera_de_int4_def ejemplos semilla js_def)
qed

section \<open>Creation\<close>

lemma paso_all: "(\<forall>p. (falla :: paso \<Rightarrow> string option) p = None) =
   (falla InsertGrupoEconomico = None \<and> falla InsertUsuarioGrupo = None \<and>
    falla InsertConfiguracionContable = None \<and> falla InsertPlanDeCuentas = None \<and>
    falla FindUniqueGrupoEconomico = None)"
proof
  assume r: "falla InsertGrupoEconomico = None \<and> falla InsertUsuarioGrupo = None \<and>
    falla InsertConfiguracionContable = None \<and> falla InsertPlanDeCuentas = None \<and>
    falla FindUniqueGrupoEconomico = None"
  show "\<forall>p. falla p = None"
  proof
    fix p show "falla p = None" using r by (cases p) simp_all
  qed
qed simp

lemma findById_sint: "\<exists>r. findById (sint (k :: 32 word)) db = Inr r"
  using sint_en_rango [of k] by (simp add: findById_def)

lemma create_exito:
  fixes falla :: "paso \<Rightarrow> string option"
  assumes "\<forall>p. falla p = None" and "\<not> clave_tomada (grupoEconomico_seq db) db"
    and "\<not> fuera_de_int4 uid"
  shows "\<exists>r. create falla ahora d uid db =
     (Inr r,
      db \<lparr> grupoEconomico := grupoEconomico db @ [nuevoGrupo (grupoEconomico_seq db) ahora d],
           grupoEconomico_seq := grupoEconomico_seq db + 1,
           usuarioGrupo := usuarioGrupo db @ [nuevaMembresia uid (grupoEconomico_seq db)],
           configuracionContable :=
             configuracionContable db @ [configuracionPorDefecto (grupoEconomico_seq db)],
           planDeCuentas :=
             planDeCuentas db @ [nuevoPlan (nuevoGrupo (grupoEconomico_seq db) ahora d)] \<rparr>)"
proof -
  let ?tx4 = "db \<lparr> grupoEconomico := grupoEconomico db @ [nuevoGrupo (grupoEconomico_seq db) ahora d],
           grupoEconomico_seq := grupoEconomico_seq db + 1,
           usuarioGrupo := usuarioGrupo db @ [nuevaMembresia uid (grupoEconomico_seq db)],
           configuracionContable :=
             configuracionContable db @ [configuracionPorDefecto (grupoEconomico_seq db)],
           planDeCuentas :=
             planDeCuentas db @ [nuevoPlan (nuevoGrupo (grupoEconomico_seq db) ahora d)] \<rparr>"
  obtain r where r: "findById (sint (grupoEconomico_seq db)) ?tx4 = Inr r"
    using findById_sint by blast
  show ?thesis
    using assms r by (simp add: create_def create_tx_def Let_def nuevoGrupo_def)
qed

lemma create_fallo:
  fixes falla :: "paso \<Rightarrow> string option"
  assumes "(\<exists>p. falla p \<noteq> None) \<or> clave_tomada (grupoEconomico_seq db) db \<or> fuera_de_int4 uid"
  shows "\<exists>e db'. create falla ahora d uid db = (Inl e, db')
          \<and> usuario db' = usuario db
          \<and> grupoEconomico db' = grupoEconomico db \<and> usuarioGrupo db' = usuarioGrupo db
          \<and> configuracionContable db' = configuracionContable db
          \<and> planDeCuentas db' = planDeCuentas db \<and> empresa db' = empresa db"
proof -
  have "\<not> (\<forall>p. falla p = None) \<or> clave_tomada (grupoEconomico_seq db) db \<or> fuera_de_int4 uid"
    using assms by auto
  then show ?thesis
    unfolding paso_all
    by (auto simp: create_def create_tx_def Let_def nuevoGrupo_def split: option.splits)
qed

text \<open>
  C3. \<^verbatim>\<open>create\<close> is all or nothing. When it succeeds, no statement was refused, the
  creator's id is the one stored, and the store has exactly four more rows: the group
  row with the DTO's values, a membership row of the creator with role ADMIN, a
  configuration row with the fixed defaults (no postings in closed periods, no global
  approval, minimum approval amount 50000, no unbalanced postings, 2 amount decimals, 4
  exchange rate decimals) and a chart of accounts row whose name is
  \<^verbatim>\<open>Plan de cuentas - \<close> followed by the group's name. When it fails, a statement was
  refused or not taken, and every table is as it was before.
\<close>

theorem create_atomico:
  "case create falla ahora d uid db of
     (Inr r, db') \<Rightarrow>
        (\<forall>p. falla p = None)
      \<and> sint (word_of_int uid :: 32 word) = uid
      \<and> grupoEconomico db' = grupoEconomico db @
          [\<lparr> g_id = grupoEconomico_seq db, g_nombre = c_nombre d,
             g_rutControlador =
               (if c_rutControlador d = Some [] then None else c_rutControlador d),
             g_paisPrincipal = c_paisPrincipal d, g_monedaBase = c_monedaBase d,
             g_fechaCreacion = ahora, g_activo = True \<rparr>]
      \<and> usuarioGrupo db' = usuarioGrupo db @
          [\<lparr> ug_usuarioId = word_of_int uid, ug_grupoEconomicoId = grupoEconomico_seq db,
             ug_rol = ADMIN \<rparr>]
      \<and> configuracionContable db' = configuracionContable db @
          [\<lparr> cc_grupoEconomicoId = grupoEconomico_seq db,
             cc_permitirAsientosEnPeriodoCerrado = False,
             cc_requiereAprobacionGlobal = False,
             cc_montoMinimoAprobacion = 50000,
             cc_permitirAsientosDescuadrados = False,
             cc_decimalesMonto = 2,
             cc_decimalesTipoCambio = 4 \<rparr>]
      \<and> planDeCuentas db' = planDeCuentas db @
          [\<lparr> pc_grupoEconomicoId = grupoEconomico_seq db,
             pc_nombre = js ''Plan de cuentas - '' @ c_nombre d,
             pc_descripcion = js ''Plan de cuentas por defecto'',
             pc_activo = True \<rparr>]
      \<and> usuario db' = usuario db
      \<and> empresa db' = empresa db
   | (Inl e, db') \<Rightarrow>
        ((\<exists>p. falla p \<noteq> None) \<or> clave_tomada (grupoEconomico_seq db) db \<or> fuera_de_int4 uid)
      \<and> usuario db' = usuario db
      \<and> grupoEconomico db' = grupoEconomico db
      \<and> usuarioGrupo db' = usuarioGrupo db
      \<and> configuracionContable db' = configuracionContable db
      \<and> planDeCuentas db' = planDeCuentas db
      \<and> empresa db' = empresa db"
proof (cases "(\<forall>p. falla p = None) \<and> \<not> clave_tomada (grupoEconomico_seq db) db
               \<and> \<not> fuera_de_int4 uid")
  case True
  then obtain r where "create falla ahora d uid db =
     (Inr r,
      db \<lparr> grupoEconomico := grupoEconomico db @ [nuevoGrupo (grupoEconomico_seq db) ahora d],
           grupoEconomico_seq := grupoEconomico_seq db + 1,
           usuarioGrupo := usuarioGrupo db @ [nuevaMembresia uid (grupoEconomico_seq db)],
           configuracionContable :=
             configuracionContable db @ [configuracionPorDefecto (grupoEconomico_seq db)],
           planDeCuentas :=
             planDeCuentas db @ [nuevoPlan (nuevoGrupo (grupoEconomico_seq db) ahora d)] \<rparr>)"
    using create_exito [of falla db uid ahora d] by blast
  moreover have "sint (word_of_int uid :: 32 word) = uid"
    using True by (simp add: sint_word_of_int)
  ultimately show ?thesis
    using True
    by (auto simp: nuevoGrupo_def nuevaMembresia_def configuracionPorDefecto_def nuevoPlan_def
             split: option.splits)
next
  case False
  then have "(\<exists>p. falla p \<noteq> None) \<or> clave_tomada (grupoEconomico_seq db) db
               \<or> fuera_de_int4 uid" by blast
  from create_fallo [OF this, of ahora d] this show ?thesis by fastforce
qed

theorem create_atomico_witness:
  "fst (create fallaPlan 30 dtoAcme 1 bdVacia) = Inl (PrismaClientKnownRequestError ''P2003'')
   \<and> grupoEconomico (snd (create fallaPlan 30 dtoAcme 1 bdVacia)) = []
   \<and> usuarioGrupo (snd (create fallaPlan 30 dtoAcme 1 bdVacia)) = []
   \<and> configuracionContable (snd (create fallaPlan 30 dtoAcme 1 bdVacia)) = []
   \<and> planDeCuentas (snd (create fallaPlan 30 dtoAcme 1 bdVacia)) = []
   \<and> map g_nombre (grupoEconomico (snd (create sinFallas 30 dtoAcme 1 bdVacia)))
       = [js ''Acme Holdings'']
   \<and> usuarioGrupo (snd (create sinFallas 30 dtoAcme 1 bdVacia))
       = [\<lparr> ug_usuarioId = 1, ug_grupoEconomicoId = 1, ug_rol = ADMIN \<rparr>]
   \<and> map cc_decimalesMonto (configuracionContable (snd (create sinFallas 30 dtoAcme 1 bdVacia)))
       = [2]
   \<and> map pc_nombre (planDeCuentas (snd (create sinFallas 30 dtoAcme 1 bdVacia)))
       = [js ''Plan de cuentas - Acme Holdings'']"
  using create_atomico [where falla = fallaPlan and ahora = 30 and d = dtoAcme and uid = 1
        and db = bdVacia]
    create_atomico [where falla = sinFallas and ahora = 30 and d = dtoAcme and uid = 1
        and db = bdVacia]
  by (simp add: ejemplos modelo Let_def)

section \<open>The active flag over a run of operations\<close>

lemma inactivo_map:
  assumes ex: "\<exists>g\<in>set (grupoEconomico db). sint (g_id g) = gid"
    and ina: "\<forall>g\<in>set (grupoEconomico db). sint (g_id g) = gid \<longrightarrow> \<not> g_activo g"
    and ids: "\<And>r. g_id (f r) = g_id r"
    and act: "\<And>r. sint (g_id r) = gid \<Longrightarrow> \<not> g_activo r \<Longrightarrow> \<not> g_activo (f r)"
  shows "(\<exists>g\<in>set (map f (grupoEconomico db)). sint (g_id g) = gid)
       \<and> (\<forall>g\<in>set (map f (grupoEconomico db)). sint (g_id g) = gid \<longrightarrow> \<not> g_activo g)"
proof
  from ex obtain g where "g \<in> set (grupoEconomico db)" "sint (g_id g) = gid" by blast
  then have "f g \<in> set (map f (grupoEconomico db))" "sint (g_id (f g)) = gid"
    by (simp_all add: ids)
  then show "\<exists>g\<in>set (map f (grupoEconomico db)). sint (g_id g) = gid" by blast
next
  show "\<forall>g\<in>set (map f (grupoEconomico db)). sint (g_id g) = gid \<longrightarrow> \<not> g_activo g"
    using ina act ids by auto
qed

lemma update_snd:
  "snd (update g d db) = db \<or>
   snd (update g d db) =
     db \<lparr> grupoEconomico := map (\<lambda>r. if sint (g_id r) = g then aplicarUpdate d r else r)
                               (grupoEconomico db) \<rparr>"
  by (simp add: update_def split: option.splits)

lemma actualizar_snd:
  "snd (actualizar g d u db) = db \<or>
   snd (actualizar g d u db) =
     db \<lparr> grupoEconomico := map (\<lambda>r. if sint (g_id r) = g then aplicarUpdate d r else r)
                               (grupoEconomico db) \<rparr>"
  using update_snd [of g d db]
  by (auto simp: actualizar_def split: sum.splits)

lemma delete_snd:
  "snd (delete g db) = db \<or>
   snd (delete g db) =
     db \<lparr> grupoEconomico := map (\<lambda>r. if sint (g_id r) = g then r \<lparr> g_activo := False \<rparr> else r)
                               (grupoEconomico db) \<rparr>"
  by (simp add: delete_def split: option.splits)

lemma eliminar_snd:
  "snd (eliminar g u db) = db \<or>
   snd (eliminar g u db) =
     db \<lparr> grupoEconomico := map (\<lambda>r. if sint (g_id r) = g then r \<lparr> g_activo := False \<rparr> else r)
                               (grupoEconomico db) \<rparr>"
  using delete_snd [of g db]
  by (auto simp: eliminar_def split: option.splits sum.splits prod.splits)

lemma create_grupos:
  "grupoEconomico (snd (create falla ahora d uid db)) = grupoEconomico db \<or>
   (\<not> clave_tomada (grupoEconomico_seq db) db \<and>
    grupoEconomico (snd (create falla ahora d uid db)) =
      grupoEconomico db @ [nuevoGrupo (grupoEconomico_seq db) ahora d])"
  by (auto simp: create_def create_tx_def Let_def nuevoGrupo_def split: option.splits sum.splits)

lemma crear_grupos:
  "grupoEconomico (snd (crear falla ahora d uid db)) = grupoEconomico db \<or>
   (\<not> clave_tomada (grupoEconomico_seq db) db \<and>
    grupoEconomico (snd (crear falla ahora d uid db)) =
      grupoEconomico db @ [nuevoGrupo (grupoEconomico_seq db) ahora d])"
  using create_grupos [of falla ahora d uid db]
  by (auto simp: crear_def split: sum.splits prod.splits option.splits)

lemma ejecutar_inactivo:
  assumes ex: "\<exists>g\<in>set (grupoEconomico db). sint (g_id g) = gid"
    and ina: "\<forall>g\<in>set (grupoEconomico db). sint (g_id g) = gid \<longrightarrow> \<not> g_activo g"
    and nore: "\<And>d u. op = Actualizar gid d u \<Longrightarrow> u_activo d \<noteq> Some True"
  shows "(\<exists>g\<in>set (grupoEconomico (ejecutar op db)). sint (g_id g) = gid)
       \<and> (\<forall>g\<in>set (grupoEconomico (ejecutar op db)). sint (g_id g) = gid \<longrightarrow> \<not> g_activo g)"
proof (cases op)
  case (Listar f u)
  then show ?thesis using ex ina by simp
next
  case (ObtenerPorId g u)
  then show ?thesis using ex ina by simp
next
  case (Crear falla ahora d u)
  have ne: "\<not> clave_tomada (grupoEconomico_seq db) db \<Longrightarrow> sint (grupoEconomico_seq db) \<noteq> gid"
  proof
    assume nt: "\<not> clave_tomada (grupoEconomico_seq db) db"
      and eq: "sint (grupoEconomico_seq db) = gid"
    from ex obtain g where g: "g \<in> set (grupoEconomico db)" "sint (g_id g) = gid" by blast
    have "g_id g = grupoEconomico_seq db"
      using g(2) eq by (intro sint_inyectiva) simp
    then show False using nt g(1) by (auto simp: clave_tomada_def list_ex_iff)
  qed
  show ?thesis
    using crear_grupos [of falla ahora d u db] ex ina ne
    by (auto simp: Crear nuevoGrupo_def)
next
  case (Actualizar g d u)
  let ?f = "\<lambda>r. if sint (g_id r) = g then aplicarUpdate d r else r"
  have ids: "\<And>r. g_id (?f r) = g_id r" by (simp add: aplicarUpdate_def)
  have act: "\<And>r. sint (g_id r) = gid \<Longrightarrow> \<not> g_activo r \<Longrightarrow> \<not> g_activo (?f r)"
    using nore [of d u] Actualizar
    by (auto simp: aplicarUpdate_def split: option.splits)
  have m: "(\<exists>g\<in>set (map ?f (grupoEconomico db)). sint (g_id g) = gid)
       \<and> (\<forall>g\<in>set (map ?f (grupoEconomico db)). sint (g_id g) = gid \<longrightarrow> \<not> g_activo g)"
    by (rule inactivo_map [OF ex ina ids act])
  from actualizar_snd [of g d u db] consider
      (same) "ejecutar op db = db"
    | (written) "grupoEconomico (ejecutar op db) = map ?f (grupoEconomico db)"
    unfolding Actualizar ejecutar.simps by (elim disjE) simp_all
  then show ?thesis
  proof cases
    case same
    then show ?thesis using ex ina by simp
  next
    case written
    show ?thesis unfolding written by (rule m)
  qed
next
  case (Eliminar g u)
  let ?f = "\<lambda>r. if sint (g_id r) = g then r \<lparr> g_activo := False \<rparr> else r"
  have ids: "\<And>r. g_id (?f r) = g_id r" by simp
  have act: "\<And>r. sint (g_id r) = gid \<Longrightarrow> \<not> g_activo r \<Longrightarrow> \<not> g_activo (?f r)" by simp
  have m: "(\<exists>g\<in>set (map ?f (grupoEconomico db)). sint (g_id g) = gid)
       \<and> (\<forall>g\<in>set (map ?f (grupoEconomico db)). sint (g_id g) = gid \<longrightarrow> \<not> g_activo g)"
    by (rule inactivo_map [OF ex ina ids act])
  from eliminar_snd [of g u db] consider
      (same) "ejecutar op db = db"
    | (written) "grupoEconomico (ejecutar op db) = map ?f (grupoEconomico db)"
    unfolding Eliminar ejecutar.simps by (elim disjE) simp_all
  then show ?thesis
  proof cases
    case same
    then show ?thesis using ex ina by simp
  next
    case written
    show ?thesis unfolding written by (rule m)
  qed
qed

text \<open>
  C2, as amended. A group that is inactive stays inactive through every run of
  \<^verbatim>\<open>listar\<close>, \<^verbatim>\<open>obtenerPorId\<close>, \<^verbatim>\<open>crear\<close>, \<^verbatim>\<open>actualizar\<close> and \<^verbatim>\<open>eliminar\<close> in which no
  \<^verbatim>\<open>actualizar\<close> of that group carries \<^verbatim>\<open>activo: true\<close>.
\<close>

theorem inactivo_terminal_sin_reactivar:
  assumes "\<exists>g\<in>set (grupoEconomico db). sint (g_id g) = gid"
    and "\<forall>g\<in>set (grupoEconomico db). sint (g_id g) = gid \<longrightarrow> \<not> g_activo g"
    and "\<forall>d u. Actualizar gid d u \<in> set ops \<longrightarrow> u_activo d \<noteq> Some True"
  shows "(\<exists>g\<in>set (grupoEconomico (fold ejecutar ops db)). sint (g_id g) = gid)
       \<and> (\<forall>g\<in>set (grupoEconomico (fold ejecutar ops db)).
             sint (g_id g) = gid \<longrightarrow> \<not> g_activo g)"
  using assms
proof (induction ops arbitrary: db)
  case Nil
  then show ?case by simp
next
  case (Cons op ops)
  have step: "(\<exists>g\<in>set (grupoEconomico (ejecutar op db)). sint (g_id g) = gid)
       \<and> (\<forall>g\<in>set (grupoEconomico (ejecutar op db)). sint (g_id g) = gid \<longrightarrow> \<not> g_activo g)"
    using Cons.prems by (intro ejecutar_inactivo) auto
  have rest: "\<forall>d u. Actualizar gid d u \<in> set ops \<longrightarrow> u_activo d \<noteq> Some True"
    using Cons.prems(3) by auto
  show ?case
    using Cons.IH [of "ejecutar op db"] step rest by simp
qed

theorem inactivo_terminal_sin_reactivar_witness:
  "map (\<lambda>g. (sint (g_id g), g_activo g)) (grupoEconomico (ejecutar (Eliminar 2 2) bdSemilla))
     = [(1, True), (2, False)]
   \<and> map (\<lambda>g. (sint (g_id g), g_activo g))
        (grupoEconomico (fold ejecutar operacionesSinReactivar (ejecutar (Eliminar 2 2) bdSemilla)))
     = [(1, True), (2, False), (3, True)]"
proof -
  let ?db = "ejecutar (Eliminar 2 2) bdSemilla"
  have db: "map (\<lambda>g. (sint (g_id g), g_activo g)) (grupoEconomico ?db) = [(1, True), (2, False)]"
    by (simp add: modelo semilla)
  have h1: "\<exists>g\<in>set (grupoEconomico ?db). sint (g_id g) = 2"
    and h2: "\<forall>g\<in>set (grupoEconomico ?db). sint (g_id g) = 2 \<longrightarrow> \<not> g_activo g"
    by (simp_all add: modelo semilla)
  have h3: "\<forall>d u. Actualizar 2 d u \<in> set operacionesSinReactivar \<longrightarrow> u_activo d \<noteq> Some True"
    by (simp add: operacionesSinReactivar_def dtoSoloNombre_def dtoVacio_def)
  have r: "map (\<lambda>g. (sint (g_id g), g_activo g))
        (grupoEconomico (fold ejecutar operacionesSinReactivar ?db))
     = [(1, True), (2, False), (3, True)]"
    using inactivo_terminal_sin_reactivar [OF h1 h2 h3]
    by (simp add: ejemplos modelo semilla Let_def)
  show ?thesis using db r by simp
qed

text \<open>
  The inactive state is not terminal: in this run, \<^verbatim>\<open>actualizar\<close> with only \<^verbatim>\<open>activo: true\<close>
  by a member sets the soft-deleted group 2 back to active.
\<close>

theorem actualizar_reactiva:
  "map g_activo (grupoEconomico (fold ejecutar [Eliminar 2 2] bdSemilla)) = [True, False]
   \<and> map g_activo
        (grupoEconomico (fold ejecutar [Eliminar 2 2, Actualizar 2 dtoReactivar 2] bdSemilla))
       = [True, True]"
  by (simp add: ejemplos modelo semilla Let_def)

section \<open>The currency of a group of Uruguay\<close>

text \<open>\<^verbatim>\<open>crear\<close> stores a group of Uruguay only with UYU or USD.\<close>

lemma crear_respeta_moneda_pais:
  assumes "crear falla ahora d uid db = (Inr r, db')" and "c_paisPrincipal d = UY"
  shows "c_monedaBase d = UYU \<or> c_monedaBase d = USD"
proof (rule ccontr)
  assume "\<not> (c_monedaBase d = UYU \<or> c_monedaBase d = USD)"
  then have "\<exists>e. validarDatosGrupo (parcialDeCreate d) = Inl e"
    using assms(2) by (simp add: validarDatosGrupo_def parcialDeCreate_def)
  then show False using assms(1) by (auto simp: crear_def)
qed

text \<open>
  C1. The rule is checked on the fields of the DTO alone. User 1 of the seed creates a
  group for Uruguay with UYU, which gets id 3. The request \<^verbatim>\<open>PUT { monedaBase: 'ARS' }\<close>
  of that user on the group is answered with 200 and leaves the group with country UY
  and currency ARS, while the same change sent together with the country,
  \<^verbatim>\<open>PUT { paisPrincipal: 'UY', monedaBase: 'ARS' }\<close>, is rejected with 422 and rule
  MONEDA_INVALIDA_PAIS.
\<close>

theorem actualizar_moneda_sin_pais:
  "map (\<lambda>g. (sint (g_id g), g_paisPrincipal g, g_monedaBase g))
       (grupoEconomico (ejecutar (Crear sinFallas 30 dtoAcme 1) bdSemilla))
     = [(1, UY, UYU), (2, UY, UYU), (3, UY, UYU)]
   \<and> (case put_grupos 3 (Some (Finite 1)) bodySoloMoneda
              (ejecutar (Crear sinFallas 30 dtoAcme 1) bdSemilla) of
        (SendError r, db') \<Rightarrow> False
      | (Send st g, db') \<Rightarrow>
          st = 200 \<and>
          map (\<lambda>g. (sint (g_id g), g_paisPrincipal g, g_monedaBase g)) (grupoEconomico db') =
            [(1, UY, UYU), (2, UY, UYU), (3, UY, ARS)])
   \<and> (case put_grupos 3 (Some (Finite 1)) bodyPaisMoneda
              (ejecutar (Crear sinFallas 30 dtoAcme 1) bdSemilla) of
        (SendError r, db') \<Rightarrow>
          r_status r = 422 \<and> r_rule r = Some ''MONEDA_INVALIDA_PAIS'' \<and>
          db' = ejecutar (Crear sinFallas 30 dtoAcme 1) bdSemilla
      | (Send st g, db') \<Rightarrow> False)"
  by (simp add: ejemplos modelo semilla Let_def)

section \<open>The length of a name\<close>

text \<open>
  The name schema accepts exactly the strings of 3 to 200 code units, counted before
  trimming, and returns them trimmed; a create request of an authenticated user whose
  name is shorter or longer than that is answered with 400 and details for \<^verbatim>\<open>nombre\<close>.
\<close>

lemma parseNombre_Inr:
  "(parseNombre (JsString s) = Inr n) = (3 \<le> length s \<and> length s \<le> 200 \<and> n = trim s)"
  by (auto simp: parseNombre_def Let_def)

lemma parseNombre_Inl:
  "length s < 3 \<or> 200 < length s \<Longrightarrow>
   \<exists>c cs. parseNombre (JsString s) = Inl (c # cs)"
  by (auto simp: parseNombre_def Let_def)

lemma agregarDetalle_keys:
  "fst ` set (agregarDetalle e ds) = insert (fst e) (fst ` set ds)"
  by (induction e ds rule: agregarDetalle.induct) auto

lemma handleZodError_keys_aux:
  "fst ` set (fold agregarDetalle es ds) = fst ` set es \<union> fst ` set ds"
  by (induction es arbitrary: ds) (auto simp: agregarDetalle_keys)

lemma handleZodError_keys: "fst ` set (handleZodError es) = fst ` set es"
  by (simp add: handleZodError_def handleZodError_keys_aux)

lemma post_grupos_nombre_fuera_de_rango:
  assumes "authenticateUser x_user_id db = Inr user"
    and "b_nombre body = JsString s" and "length s < 3 \<or> 200 < length s"
  shows "\<exists>r. post_grupos falla ahora x_user_id body db = (SendError r, db)
           \<and> r_status r = 400 \<and> r_code r = ''VALIDATION_ERROR''
           \<and> (\<exists>ds. r_details r = Some ds \<and> ''nombre'' \<in> fst ` set ds)"
proof -
  obtain c cs where n: "parseNombre (JsString s) = Inl (c # cs)"
    using parseNombre_Inl [OF assms(3)] by blast
  obtain es where v: "validateCreateGrupo body = Inl (ZodError ((''nombre'', c) # es))"
    by (simp add: validateCreateGrupo_def assms(2) n issuesDe_def Let_def)
  have "''nombre'' \<in> fst ` set (handleZodError ((''nombre'', c) # es))"
    unfolding handleZodError_keys by simp
  then show ?thesis
    by (simp add: post_grupos_def v assms(1))
qed

text \<open>
  C5. The length is checked before the name is trimmed. The requests are those of user
  1 of the seed, who is authenticated and has a membership. \<^verbatim>\<open>validateCreateGrupo\<close>
  accepts the name of one letter between two pairs of spaces and returns the DTO with
  the name of length one; the create request is then rejected by the service with 422,
  not 400. With a name of three spaces the request is answered with 201 and a group
  with the empty name is stored. A name of two letters is answered with 400 and a
  detail for \<^verbatim>\<open>nombre\<close>.
\<close>

theorem validateCreateGrupo_recorta_despues:
  "authenticateUser (Some (Finite 1)) bdSemilla =
     Inr \<lparr> ru_id = 1, ru_email = js ''admin@test.com'', ru_nombre = js ''Admin Test'',
           ru_grupoEconomicoId = 1, ru_rol = ADMIN \<rparr>
   \<and> validateCreateGrupo bodyRodeado =
       Inr \<lparr> c_nombre = js ''a'', c_rutControlador = None, c_paisPrincipal = AR,
             c_monedaBase = ARS \<rparr>
   \<and> (case post_grupos sinFallas 30 (Some (Finite 1)) bodyRodeado bdSemilla of
        (SendError r, db') \<Rightarrow> r_status r = 422 \<and> r_details r = None \<and> db' = bdSemilla
      | (Send st g, db') \<Rightarrow> False)
   \<and> (case post_grupos sinFallas 30 (Some (Finite 1)) bodyEspacios bdSemilla of
        (SendError r, db') \<Rightarrow> False
      | (Send st g, db') \<Rightarrow>
          st = 201 \<and> g_nombre (d_grupo g) = [] \<and>
          map g_nombre (grupoEconomico db') = [js ''Grupo Test 1'', js ''Grupo Test 2'', []])
   \<and> (case post_grupos sinFallas 30 (Some (Finite 1)) bodyCorto bdSemilla of
        (SendError r, db') \<Rightarrow>
          r_status r = 400 \<and> r_details r = Some [(''nombre'', [too_small])] \<and> db' = bdSemilla
      | (Send st g, db') \<Rightarrow> False)"
  by (simp add: ejemplos modelo semilla Let_def)


end
